theory Spec2Isabelle
  imports Main "HOL-Library.AList"
begin

section \<open>Strings\<close>

text \<open>
  Python's \<open>str.lower()\<close>, on ASCII text (HTTP method names are ASCII tokens):
  the letters \<open>A\<close> to \<open>Z\<close> move to \<open>a\<close> to \<open>z\<close>, every other character stays.
\<close>

definition lower_char :: "char \<Rightarrow> char" where
  "lower_char c =
     (case map_of (zip ''ABCDEFGHIJKLMNOPQRSTUVWXYZ'' ''abcdefghijklmnopqrstuvwxyz'') c of
        None \<Rightarrow> c
      | Some l \<Rightarrow> l)"

definition lower :: "string \<Rightarrow> string" where
  "lower s = map lower_char s"

text \<open>\<open>s.startswith(p)\<close>.\<close>

fun startswith :: "string \<Rightarrow> string \<Rightarrow> bool" where
  "startswith s [] = True"
| "startswith [] (p # ps) = False"
| "startswith (c # cs) (p # ps) = (c = p \<and> startswith cs ps)"

text \<open>\<open>sub in s\<close> on strings: \<open>sub\<close> occurs in \<open>s\<close> as a contiguous piece.\<close>

fun str_in :: "string \<Rightarrow> string \<Rightarrow> bool" where
  "str_in sub [] = (sub = [])"
| "str_in sub (c # cs) = (startswith (c # cs) sub \<or> str_in sub cs)"

text \<open>\<open>str(n)\<close> for a natural number: its decimal digits.\<close>

fun str_nat :: "nat \<Rightarrow> string" where
  "str_nat n =
     (if n < 10 then [''0123456789'' ! n] else str_nat (n div 10) @ [''0123456789'' ! (n mod 10)])"

section \<open>Data model\<close>

datatype OperationType = QUERY | MUTATION | SUBSCRIPTION

text \<open>
  Decoded JSON. A number keeps its literal text; an object is the list of its members
  (each key once), read with \<open>map_of\<close>.
\<close>

datatype json =
    JNull
  | JBool bool
  | JNum string
  | JStr string
  | JArr "json list"
  | JObj "(string \<times> json) list"

text \<open>
  The exceptions that travel through the views. \<open>HTTPException\<close> is the class of
  \<open>base_view.py\<close>, with its status code and reason; the others are Python's and
  strawberry's own.
\<close>

datatype exn =
    HTTPException nat string
  | JSONDecodeError
  | KeyError
  | AttributeError
  | TypeError
  | ValueError
  | InvalidOperationTypeError OperationType
  | MissingQueryError
  | OtherError string

text \<open>\<open>GraphQLRequestData\<close>: each field is what \<open>dict.get\<close> returned, \<open>JNull\<close> for None.\<close>

record GraphQLRequestData =
  query :: json
  variables :: json
  operation_name :: json

text \<open>A value of a multipart form: a text field or an uploaded file (named by its content).\<close>

datatype form_value = Field string | File string

text \<open>
  The calls a view makes to its collaborators, in the order it makes them.
  \<open>Execute\<close> records the request data and the allowed operation types handed to the
  execution engine.
\<close>

datatype event =
    GetSubResponse
  | GetContext
  | GetRootValue
  | RenderGraphiql
  | DebugPrint
  | Execute GraphQLRequestData "OperationType set"
  | ProcessResult
  | CreateResponse
  | EncodeJson
  | Send

text \<open>The calls to the engine among the calls made.\<close>

definition executes :: "event list \<Rightarrow> event list" where
  "executes tr = filter (\<lambda>ev. case ev of Execute request_data allowed \<Rightarrow> True | _ \<Rightarrow> False) tr"

section \<open>What the views import\<close>

text \<open>
  Functions that \<open>base_view.py\<close> and \<open>http_handler.py\<close> import and that are
  not among the source files, each taken as a parameter:
  \<^item> \<open>json_loads\<close>: \<open>json.loads\<close>, None for a \<open>JSONDecodeError\<close>;
  \<^item> \<open>from_http\<close>: \<open>OperationType.from_http\<close>;
  \<^item> \<open>as_http_error_reason\<close>: the method of \<open>InvalidOperationTypeError\<close>, given the
    operation type the error carries and the HTTP method;
  \<^item> \<open>replace_placeholders_with_files\<close>: the multipart file resolver;
  \<^item> \<open>http_parse_query_params\<close>, \<open>parse_request_data\<close>: the two helpers of
    \<open>strawberry.http\<close> that the ASGI handler calls;
  \<^item> \<open>get_graphiql_html\<close>: the static console page.
\<close>

record env =
  json_loads :: "string \<Rightarrow> json option"
  from_http :: "string \<Rightarrow> exn + OperationType set"
  as_http_error_reason :: "OperationType \<Rightarrow> string \<Rightarrow> string"
  replace_placeholders_with_files :: "json \<Rightarrow> json \<Rightarrow> (string \<times> form_value) list \<Rightarrow> exn + json"
  http_parse_query_params :: "(string \<times> string) list \<Rightarrow> exn + json"
  parse_request_data :: "json \<Rightarrow> exn + GraphQLRequestData"
  get_graphiql_html :: string

section \<open>The synchronous view: \<open>BaseHTTPView\<close>\<close>

text \<open>
  The request object is duck-typed: the view probes attributes and falls back when one
  is missing. An attribute the object may lack is an option, None being the
  \<open>AttributeError\<close>. \<open>content_type\<close> may also hold None itself. \<open>data\<close> is the
  body as bytes, already decoded; it is None when \<open>request.data.decode\<close> fails with
  \<open>AttributeError\<close>.
\<close>

record Request =
  "method" :: string
  content_type :: "string option option"
  headers :: "(string \<times> string) list option"
  data :: "string option"
  body :: "string option"
  raw_body :: "string option"
  form :: "(string \<times> string) list"
  files :: "(string \<times> form_value) list"
  GET :: "(string \<times> string) list option"
  args :: "(string \<times> string) list option"
  query_params :: "(string \<times> string) list option"

text \<open>
  The abstract members of \<open>BaseHTTPView\<close>, with \<open>_create_response\<close>, the schema's
  \<open>execute_sync\<close> and the imported \<open>process_result\<close>. \<open>get_context\<close> may change the
  sub-response it is given, so it returns it.
\<close>

record ('c, 'r, 'e, 'd, 'p) view =
  allow_queries_via_get :: bool
  get_sub_response :: "Request \<Rightarrow> 'p"
  get_context :: "Request \<Rightarrow> 'p \<Rightarrow> 'c \<times> 'p"
  get_root_value :: "Request \<Rightarrow> 'r option"
  render_graphiql :: "Request \<Rightarrow> 'p"
  create_response :: "'d \<Rightarrow> 'p \<Rightarrow> 'p"
  execute_sync :: "json \<Rightarrow> 'r option \<Rightarrow> json \<Rightarrow> 'c \<Rightarrow> json \<Rightarrow> OperationType set \<Rightarrow> exn + 'e"
  process_result :: "'e \<Rightarrow> 'd"

definition is_request_allowed :: "Request \<Rightarrow> bool" where
  "is_request_allowed request = (lower (method request) \<in> {''get'', ''post''})"

definition should_render_graphiql :: "Request \<Rightarrow> bool" where
  "should_render_graphiql request = False"

definition parse_json :: "env \<Rightarrow> string \<Rightarrow> exn + json" where
  "parse_json env s =
     (case json_loads env s of
        None \<Rightarrow> Inl (HTTPException 400 ''Unable to parse request body as JSON'')
      | Some j \<Rightarrow> Inr j)"

text \<open>\<open>d.get(k, default)\<close> on a mapping kept as an association list.\<close>

definition dict_get :: "('k \<times> 'v) list \<Rightarrow> 'k \<Rightarrow> 'v \<Rightarrow> 'v" where
  "dict_get d k dflt = (case map_of d k of None \<Rightarrow> dflt | Some v \<Rightarrow> v)"

definition parse_form :: "env \<Rightarrow> Request \<Rightarrow> exn + json" where
  "parse_form env request =
     (case parse_json env (dict_get (form request) ''operations'' ''{}'') of
        Inl e \<Rightarrow> Inl e
      | Inr operations \<Rightarrow>
          (case parse_json env (dict_get (form request) ''map'' ''{}'') of
             Inl e \<Rightarrow> Inl e
           | Inr files_map \<Rightarrow>
               (case replace_placeholders_with_files env operations files_map (files request) of
                  Inl KeyError \<Rightarrow> Inl (HTTPException 400 ''File(s) missing in form data'')
                | Inl e \<Rightarrow> Inl e
                | Inr d \<Rightarrow> Inr d)))"

definition get_query_params :: "Request \<Rightarrow> exn + (string \<times> string) list" where
  "get_query_params request =
     (case GET request of
        Some d \<Rightarrow> Inr d
      | None \<Rightarrow>
          (case args request of
             Some d \<Rightarrow> Inr d
           | None \<Rightarrow>
               (case query_params request of
                  Some d \<Rightarrow> Inr d
                | None \<Rightarrow> Inl AttributeError)))"

text \<open>
  \<open>parse_query_params\<close>: the parameters are strings; when \<open>variables\<close> is among them
  it is replaced, in place, by its decoded JSON. A \<open>JSONDecodeError\<close> leaves as it is.
\<close>

definition parse_query_params :: "env \<Rightarrow> (string \<times> string) list \<Rightarrow> exn + json" where
  "parse_query_params env params =
     (case map_of params ''variables'' of
        None \<Rightarrow> Inr (JObj (map (\<lambda>(k, v). (k, JStr v)) params))
      | Some s \<Rightarrow>
          (case json_loads env s of
             None \<Rightarrow> Inl JSONDecodeError
           | Some j \<Rightarrow>
               Inr (JObj (AList.update ''variables'' j (map (\<lambda>(k, v). (k, JStr v)) params)))))"

text \<open>Lines 132 to 135 of \<open>parse_http_body\<close>: the content type, with its fallback.\<close>

definition request_content_type :: "Request \<Rightarrow> exn + string" where
  "request_content_type request =
     (case content_type request of
        Some ct \<Rightarrow> Inr (case ct of None \<Rightarrow> '''' | Some s \<Rightarrow> s)
      | None \<Rightarrow>
          (case headers request of
             None \<Rightarrow> Inl AttributeError
           | Some hs \<Rightarrow> Inr (dict_get hs ''content-type'' '''')))"

text \<open>Lines 140 to 146 of \<open>parse_http_body\<close>: the body, with its two fallbacks.\<close>

definition request_body :: "Request \<Rightarrow> exn + string" where
  "request_body request =
     (case data request of
        Some b \<Rightarrow> Inr b
      | None \<Rightarrow>
          (case body request of
             Some b \<Rightarrow> Inr b
           | None \<Rightarrow>
               (case raw_body request of
                  Some b \<Rightarrow> Inr b
                | None \<Rightarrow> Inl AttributeError)))"

text \<open>
  Lines 158 to 162 of \<open>parse_http_body\<close>: the three \<open>data.get\<close> calls. A decoded
  value that is not an object has no \<open>get\<close>.
\<close>

definition request_data_of :: "json \<Rightarrow> exn + GraphQLRequestData" where
  "request_data_of d =
     (case d of
        JObj kvs \<Rightarrow>
          Inr \<lparr>query = dict_get kvs ''query'' JNull,
               variables = dict_get kvs ''variables'' JNull,
               operation_name = dict_get kvs ''operationName'' JNull\<rparr>
      | _ \<Rightarrow> Inl AttributeError)"

definition parse_http_body :: "env \<Rightarrow> Request \<Rightarrow> exn + GraphQLRequestData" where
  "parse_http_body env request =
     (case request_content_type request of
        Inl e \<Rightarrow> Inl e
      | Inr ct \<Rightarrow>
          (case (if str_in ''application/json'' ct then
                   (case request_body request of
                      Inl e \<Rightarrow> Inl e
                    | Inr b \<Rightarrow> parse_json env b)
                 else if startswith ct ''multipart/form-data'' then parse_form env request
                 else if lower (method request) = ''get'' then
                   (case get_query_params request of
                      Inl e \<Rightarrow> Inl e
                    | Inr qp \<Rightarrow> parse_query_params env qp)
                 else Inl (HTTPException 400 ''Unsupported content type''))
           of
             Inl e \<Rightarrow> Inl e
           | Inr d \<Rightarrow> request_data_of d))"

text \<open>
  \<open>execute_operation\<close> returns the calls it made and either the exception it raised or
  the engine's result with the sub-response as \<open>get_context\<close> left it.
\<close>

definition execute_operation ::
  "('c, 'r, 'e, 'd, 'p) view \<Rightarrow> env \<Rightarrow> Request \<Rightarrow> 'p \<Rightarrow> event list \<times> (exn + 'e \<times> 'p)" where
  "execute_operation v env request sub_response =
     (case parse_http_body env request of
        Inl JSONDecodeError \<Rightarrow> ([], Inl (HTTPException 400 ''Unable to parse request body as JSON''))
      | Inl KeyError \<Rightarrow> ([], Inl (HTTPException 400 ''File(s) missing in form data''))
      | Inl e \<Rightarrow> ([], Inl e)
      | Inr request_data \<Rightarrow>
          (let (context, sub') = get_context v request sub_response;
               root_value = get_root_value v request;
               m = method request
           in case from_http env m of
                Inl e \<Rightarrow> ([GetContext, GetRootValue], Inl e)
              | Inr types \<Rightarrow>
                  (let allowed_operation_types =
                         (if \<not> allow_queries_via_get v \<and> m = ''GET''
                          then types - {QUERY} else types)
                   in ([GetContext, GetRootValue, Execute request_data allowed_operation_types],
                       (case execute_sync v (query request_data) root_value
                               (variables request_data) context (operation_name request_data)
                               allowed_operation_types of
                          Inl e \<Rightarrow> Inl e
                        | Inr result \<Rightarrow> Inr (result, sub'))))))"

definition run ::
  "('c, 'r, 'e, 'd, 'p) view \<Rightarrow> env \<Rightarrow> Request \<Rightarrow> event list \<times> (exn + 'p)" where
  "run v env request =
     (if \<not> is_request_allowed request then
        ([], Inl (HTTPException 405 ''GraphQL only supports GET and POST requests.''))
      else if should_render_graphiql request then
        ([RenderGraphiql], Inr (render_graphiql v request))
      else
        (let sub_response = get_sub_response v request;
             (tr, r) = execute_operation v env request sub_response
         in case r of
              Inl (InvalidOperationTypeError k) \<Rightarrow>
                (GetSubResponse # tr,
                 Inl (HTTPException 400 (as_http_error_reason env k (method request))))
            | Inl MissingQueryError \<Rightarrow>
                (GetSubResponse # tr,
                 Inl (HTTPException 400 ''No GraphQL query found in the request''))
            | Inl e \<Rightarrow> (GetSubResponse # tr, Inl e)
            | Inr (result, sub') \<Rightarrow>
                (GetSubResponse # tr @ [ProcessResult, CreateResponse],
                 Inr (create_response v (process_result v result) sub'))))"

section \<open>The asynchronous view: \<open>HTTPHandler\<close>\<close>

text \<open>
  What the handler reads of Starlette's request: the method, the headers (their names in
  lower case, as ASGI delivers them), the query parameters, the body and the parsed
  multipart form. A form holds the text fields and the uploaded files together.
\<close>

record StarletteRequest =
  s_method :: string
  s_headers :: "(string \<times> string) list"
  s_query_params :: "(string \<times> string) list"
  s_body :: string
  s_form :: "(string \<times> form_value) list"

text \<open>\<open>request.headers.get(name, default)\<close>: Starlette looks the name up in lower case.\<close>

definition headers_get :: "StarletteRequest \<Rightarrow> string \<Rightarrow> string \<Rightarrow> string" where
  "headers_get request name dflt = dict_get (s_headers request) (lower name) dflt"

text \<open>
  Starlette's response: the status code (None only on the sub-response, where the
  handler clears it), the body, the media type, the raw header list and the background
  task.
\<close>

record Response =
  status_code :: "nat option"
  content :: string
  media_type :: "string option"
  raw_headers :: "(string \<times> string) list"
  background :: "string option"

text \<open>
  The headers a Starlette response starts with: the content length, unless the status
  allows no body, then the content type, with the charset appended to a text type.
\<close>

definition init_headers :: "string \<Rightarrow> nat \<Rightarrow> string option \<Rightarrow> (string \<times> string) list" where
  "init_headers b st mt =
     (if st < 200 \<or> st = 204 \<or> st = 304 then [] else [(''content-length'', str_nat (length b))])
     @ (case mt of
          None \<Rightarrow> []
        | Some t \<Rightarrow>
            [(''content-type'', if startswith t ''text/'' then t @ ''; charset=utf-8'' else t)])"

definition new_Response :: "string \<Rightarrow> nat \<Rightarrow> string option \<Rightarrow> Response" where
  "new_Response b st mt =
     \<lparr>status_code = Some st, content = b, media_type = mt,
      raw_headers = init_headers b st mt, background = None\<rparr>"

definition PlainTextResponse :: "string \<Rightarrow> nat \<Rightarrow> Response" where
  "PlainTextResponse b st = new_Response b st (Some ''text/plain'')"

definition HTMLResponse :: "string \<Rightarrow> nat \<Rightarrow> Response" where
  "HTMLResponse b st = new_Response b st (Some ''text/html'')"

text \<open>
  The constructor arguments of \<open>HTTPHandler\<close>, with the schema's \<open>execute\<close>.
  \<open>get_context\<close> may change the sub-response it is given, so it returns it.
\<close>

record ('c, 'r, 'e, 'd) handler =
  graphiql :: bool
  h_allow_queries_via_get :: bool
  debug :: bool
  h_get_context :: "StarletteRequest \<Rightarrow> Response \<Rightarrow> 'c \<times> Response"
  h_get_root_value :: "StarletteRequest \<Rightarrow> 'r option"
  h_process_result :: "StarletteRequest \<Rightarrow> 'e \<Rightarrow> 'd"
  encode_json :: "'d \<Rightarrow> string"
  schema_execute :: "json \<Rightarrow> 'r option \<Rightarrow> json \<Rightarrow> 'c \<Rightarrow> json \<Rightarrow> OperationType set \<Rightarrow> exn + 'e"

definition handler_should_render_graphiql ::
  "('c, 'r, 'e, 'd) handler \<Rightarrow> StarletteRequest \<Rightarrow> bool" where
  "handler_should_render_graphiql h request =
     (if \<not> graphiql h then False
      else list_ex (\<lambda>supported_header.
                      str_in supported_header (headers_get request ''accept'' ''''))
             [''text/html'', ''*/*''])"

definition get_graphiql_response :: "env \<Rightarrow> Response" where
  "get_graphiql_response env = HTMLResponse (get_graphiql_html env) 200"

text \<open>\<open>HTTPHandler.execute\<close>: the debug print, then the schema.\<close>

definition handler_execute ::
  "('c, 'r, 'e, 'd) handler \<Rightarrow> json \<Rightarrow> json \<Rightarrow> 'c \<Rightarrow> json \<Rightarrow> 'r option \<Rightarrow>
   OperationType set \<Rightarrow> event list \<times> (exn + 'e)" where
  "handler_execute h q vars context opname root_value allowed_operation_types =
     ((if debug h then [DebugPrint] else []),
      schema_execute h q root_value vars context opname allowed_operation_types)"

text \<open>
  \<open>json.loads\<close> on a value of the multipart form: an uploaded file is no text.
\<close>

definition read_form_json :: "env \<Rightarrow> form_value \<Rightarrow> exn + json" where
  "read_form_json env fv =
     (case fv of
        File f \<Rightarrow> Inl TypeError
      | Field s \<Rightarrow> (case json_loads env s of None \<Rightarrow> Inl JSONDecodeError | Some j \<Rightarrow> Inr j))"

text \<open>
  Lines 84 to 138 of \<open>get_http_response\<close>: the dispatch on method and content type.
  It ends in a response returned at once (\<open>Inr (Inl response)\<close>), in the decoded data
  (\<open>Inr (Inr d)\<close>), or in an exception that no handler catches.
\<close>

definition dispatch ::
  "('c, 'r, 'e, 'd) handler \<Rightarrow> env \<Rightarrow> StarletteRequest \<Rightarrow> exn + (Response + json)" where
  "dispatch h env request =
     (let m = s_method request in
      if m = ''GET'' then
        (if s_query_params request \<noteq> [] then
           (case http_parse_query_params env (s_query_params request) of
              Inl JSONDecodeError \<Rightarrow>
                Inr (Inl (PlainTextResponse ''Unable to parse request body as JSON'' 400))
            | Inl e \<Rightarrow> Inl e
            | Inr d \<Rightarrow> Inr (Inr d))
         else if handler_should_render_graphiql h request then
           Inr (Inl (get_graphiql_response env))
         else Inr (Inl (HTMLResponse '''' 404)))
      else if m = ''POST'' then
        (let ct = headers_get request ''Content-Type'' '''' in
         if str_in ''application/json'' ct then
           (case json_loads env (s_body request) of
              None \<Rightarrow> Inr (Inl (PlainTextResponse ''Unable to parse request body as JSON'' 400))
            | Some d \<Rightarrow> Inr (Inr d))
         else if startswith ct ''multipart/form-data'' then
           (let multipart_data = s_form request in
            case read_form_json env (dict_get multipart_data ''operations'' (Field ''{}'')) of
              Inl JSONDecodeError \<Rightarrow>
                Inr (Inl (PlainTextResponse ''Unable to parse request body as JSON'' 400))
            | Inl e \<Rightarrow> Inl e
            | Inr operations \<Rightarrow>
                (case read_form_json env (dict_get multipart_data ''map'' (Field ''{}'')) of
                   Inl JSONDecodeError \<Rightarrow>
                     Inr (Inl (PlainTextResponse ''Unable to parse request body as JSON'' 400))
                 | Inl e \<Rightarrow> Inl e
                 | Inr files_map \<Rightarrow>
                     (case replace_placeholders_with_files env operations files_map
                             multipart_data of
                        Inl KeyError \<Rightarrow>
                          Inr (Inl (PlainTextResponse ''File(s) missing in form data'' 400))
                      | Inl e \<Rightarrow> Inl e
                      | Inr d \<Rightarrow> Inr (Inr d))))
         else Inr (Inl (PlainTextResponse ''Unsupported Media Type'' 415)))
      else Inr (Inl (PlainTextResponse ''Method Not Allowed'' 405)))"

text \<open>
  \<open>get_http_response\<close>, with \<open>execute\<close> and \<open>process_result\<close> passed in as the
  source passes them. It returns the calls made and the response, or the exception
  that escapes.
\<close>

definition get_http_response ::
  "('c, 'r, 'e, 'd) handler \<Rightarrow> env \<Rightarrow> StarletteRequest \<Rightarrow>
   (json \<Rightarrow> json \<Rightarrow> 'c \<Rightarrow> json \<Rightarrow> 'r option \<Rightarrow> OperationType set \<Rightarrow> event list \<times> (exn + 'e)) \<Rightarrow>
   (StarletteRequest \<Rightarrow> 'e \<Rightarrow> 'd) \<Rightarrow> 'r option \<Rightarrow> 'c \<Rightarrow> event list \<times> (exn + Response)" where
  "get_http_response h env request execute proc_result root_value context =
     (let m = s_method request in
      case dispatch h env request of
        Inl e \<Rightarrow> ([], Inl e)
      | Inr (Inl response) \<Rightarrow> ([], Inr response)
      | Inr (Inr d) \<Rightarrow>
          (case parse_request_data env d of
             Inl JSONDecodeError \<Rightarrow>
               ([], Inr (PlainTextResponse ''Unable to parse request body as JSON'' 400))
           | Inl e \<Rightarrow> ([], Inl e)
           | Inr request_data \<Rightarrow>
               (case from_http env m of
                  Inl e \<Rightarrow> ([], Inl e)
                | Inr types \<Rightarrow>
                    (let allowed_operation_types =
                           (if \<not> h_allow_queries_via_get h \<and> m = ''GET''
                            then types - {QUERY} else types);
                         (tr, r) = execute (query request_data) (variables request_data) context
                                     (operation_name request_data) root_value
                                     allowed_operation_types;
                         tr' = Execute request_data allowed_operation_types # tr
                     in case r of
                          Inl (InvalidOperationTypeError k) \<Rightarrow>
                            (tr', Inr (PlainTextResponse (as_http_error_reason env k m) 400))
                        | Inl MissingQueryError \<Rightarrow>
                            (tr', Inr (PlainTextResponse
                                         ''No GraphQL query found in the request'' 400))
                        | Inl e \<Rightarrow> (tr', Inl e)
                        | Inr result \<Rightarrow>
                            (tr' @ [ProcessResult, EncodeJson],
                             Inr (new_Response (encode_json h (proc_result request result)) 200
                                    (Some ''application/json'')))))))"

text \<open>
  The sub-response \<open>handle\<close> starts from: a fresh \<open>Response()\<close> with its status code
  set to None and its content-length header deleted.
\<close>

definition new_sub_response :: Response where
  "new_sub_response =
     (new_Response '''' 200 None)
       \<lparr>status_code := None,
        raw_headers := filter (\<lambda>(k, v). k \<noteq> ''content-length'')
                         (raw_headers (new_Response '''' 200 None))\<rparr>"

text \<open>
  Lines 64 to 70 of \<open>handle\<close>: the sub-response merged into the response. A status
  code counts when it is truthy: not None and not 0.
\<close>

definition merge_sub_response :: "Response \<Rightarrow> Response \<Rightarrow> Response" where
  "merge_sub_response response sub_response =
     (let r1 = response\<lparr>raw_headers := raw_headers response @ raw_headers sub_response\<rparr>;
          r2 = (if background sub_response \<noteq> None
                then r1\<lparr>background := background sub_response\<rparr> else r1)
      in if status_code sub_response \<noteq> None \<and> status_code sub_response \<noteq> Some 0
         then r2\<lparr>status_code := status_code sub_response\<rparr> else r2)"

definition handle ::
  "('c, 'r, 'e, 'd) handler \<Rightarrow> env \<Rightarrow> StarletteRequest \<Rightarrow> event list \<times> (exn + Response)" where
  "handle h env request =
     (let root_value = h_get_root_value h request;
          (context, sub_response) = h_get_context h request new_sub_response;
          (tr, r) = get_http_response h env request (handler_execute h) (h_process_result h)
                      root_value context
      in case r of
           Inl e \<Rightarrow> (GetRootValue # GetContext # tr, Inl e)
         | Inr response \<Rightarrow>
             (GetRootValue # GetContext # tr @ [Send],
              Inr (merge_sub_response response sub_response)))"

section \<open>The parts modelled from the specification\<close>

text \<open>
  Modelled from the spec: \<open>OperationType.from_http\<close>, imported from
  \<open>strawberry.types.graphql\<close>, is not among the source files. The operation gate
  starts from \<open>{QUERY}\<close> for GET and from \<open>{QUERY, MUTATION}\<close> for POST. The
  specification gives no set to any other method; that case is an error here.
\<close>

definition spec_from_http :: "string \<Rightarrow> exn + OperationType set" where
  "spec_from_http m =
     (if m = ''GET'' then Inr {QUERY}
      else if m = ''POST'' then Inr {QUERY, MUTATION}
      else Inl ValueError)"

text \<open>
  Modelled from the spec: the execution engine (\<open>schema.execute\<close> and
  \<open>schema.execute_sync\<close>) is not among the source files. It determines the kind the
  query document declares; a request with no usable query is the missing-query error;
  an operation whose kind is not among the allowed types is rejected with the
  invalid-operation-type error carrying that kind; any other operation is resolved to a
  result. How a kind is read off the document (\<open>declared_kind\<close>, None when there is no
  usable query) and how an operation is resolved are parameters.
\<close>

definition spec_execute ::
  "(json \<Rightarrow> json \<Rightarrow> OperationType option) \<Rightarrow> (json \<Rightarrow> 'r option \<Rightarrow> json \<Rightarrow> 'c \<Rightarrow> json \<Rightarrow> 'e) \<Rightarrow>
   json \<Rightarrow> 'r option \<Rightarrow> json \<Rightarrow> 'c \<Rightarrow> json \<Rightarrow> OperationType set \<Rightarrow> exn + 'e" where
  "spec_execute declared_kind resolve q root_value vars context opname allowed =
     (case declared_kind q opname of
        None \<Rightarrow> Inl MissingQueryError
      | Some k \<Rightarrow>
          if k \<in> allowed then Inr (resolve q root_value vars context opname)
          else Inl (InvalidOperationTypeError k))"

text \<open>
  Modelled from the spec: the contract of the execution engine at the operation gate.
  The engine rejects an operation whose declared kind, read off the query document by
  \<open>declared_kind\<close>, is not among the allowed types; the rejection is the
  invalid-operation-type error carrying that kind. Nothing is said of a request whose
  document declares no kind.
\<close>

definition rejects_disallowed ::
  "(json \<Rightarrow> json \<Rightarrow> OperationType option) \<Rightarrow>
   (json \<Rightarrow> 'r option \<Rightarrow> json \<Rightarrow> 'c \<Rightarrow> json \<Rightarrow> OperationType set \<Rightarrow> exn + 'e) \<Rightarrow> bool" where
  "rejects_disallowed declared_kind execute =
     (\<forall>q root_value vars ctx opname allowed k.
        declared_kind q opname = Some k \<longrightarrow> k \<notin> allowed \<longrightarrow>
        execute q root_value vars ctx opname allowed = Inl (InvalidOperationTypeError k))"

section \<open>Example collaborators and requests\<close>

text \<open>
  Concrete collaborators on which the theorems below are run: a decoder that knows three
  documents, the reason text of the invalid-operation-type error, an engine built with
  \<open>spec_execute\<close> that reads the kind off the first word of the query, and the two
  views over them.
\<close>

definition ex_loads :: "string \<Rightarrow> json option" where
  \<open>ex_loads s =
     (if s = ''{}'' then Some (JObj [])
      else if s = ''{"query": "{ hello }"}'' then Some (JObj [(''query'', JStr ''{ hello }'')])
      else if s = ''{"a": 1}'' then Some (JObj [(''a'', JNum ''1'')])
      else None)\<close>

definition ex_reason :: "OperationType \<Rightarrow> string \<Rightarrow> string" where
  "ex_reason k m =
     (case k of QUERY \<Rightarrow> ''queries'' | MUTATION \<Rightarrow> ''mutations''
              | SUBSCRIPTION \<Rightarrow> ''subscriptions'')
     @ '' are not allowed when using '' @ m"

definition ex_kind :: "json \<Rightarrow> json \<Rightarrow> OperationType option" where
  "ex_kind q opname =
     (case q of
        JStr s \<Rightarrow>
          (if s = [] then None
           else if startswith s ''mutation'' then Some MUTATION
           else if startswith s ''subscription'' then Some SUBSCRIPTION
           else Some QUERY)
      | _ \<Rightarrow> None)"

definition ex_resolve :: "json \<Rightarrow> string option \<Rightarrow> json \<Rightarrow> string \<Rightarrow> json \<Rightarrow> string" where
  "ex_resolve q root_value vars context opname = ''result''"

definition ex_env0 :: env where
  "ex_env0 =
     \<lparr>json_loads = ex_loads, from_http = spec_from_http, as_http_error_reason = ex_reason,
      replace_placeholders_with_files = (\<lambda>operations files_map fs. Inr operations),
      http_parse_query_params = (\<lambda>params. Inl (OtherError ''unset'')),
      parse_request_data = request_data_of,
      get_graphiql_html = ''<html>GraphiQL</html>''\<rparr>"

text \<open>
  The helper \<open>parse_query_params\<close> of \<open>strawberry.http\<close> is taken to do what the
  view's method of the same name does.
\<close>

definition ex_env :: env where
  "ex_env = ex_env0\<lparr>http_parse_query_params := parse_query_params ex_env0\<rparr>"

definition ex_view :: "bool \<Rightarrow> (string, string, string, string, string) view" where
  "ex_view allow =
     \<lparr>allow_queries_via_get = allow,
      get_sub_response = (\<lambda>request. ''sub''),
      get_context = (\<lambda>request sub. (''context'', sub)),
      get_root_value = (\<lambda>request. None),
      render_graphiql = (\<lambda>request. ''<html>GraphiQL</html>''),
      create_response = (\<lambda>response_data sub. response_data),
      execute_sync = spec_execute ex_kind ex_resolve,
      process_result = (\<lambda>result. result)\<rparr>"

text \<open>The example handler's context phase sets a cookie on the sub-response.\<close>

definition ex_handler :: "bool \<Rightarrow> bool \<Rightarrow> (string, string, string, string) handler" where
  "ex_handler console allow =
     \<lparr>graphiql = console,
      h_allow_queries_via_get = allow,
      debug = False,
      h_get_context =
        (\<lambda>request sub. (''context'', sub\<lparr>raw_headers := raw_headers sub @ [(''set-cookie'', ''a=1'')]\<rparr>)),
      h_get_root_value = (\<lambda>request. None),
      h_process_result = (\<lambda>request result. result),
      encode_json = (\<lambda>response_data. response_data),
      schema_execute = spec_execute ex_kind ex_resolve\<rparr>"

text \<open>
  A request as a Flask-like object presents it to the synchronous view (\<open>content_type\<close>,
  \<open>data\<close>, \<open>args\<close>), and the same request as Starlette presents it.
\<close>

definition ex_request :: "string \<Rightarrow> string \<Rightarrow> string \<Rightarrow> (string \<times> string) list \<Rightarrow> Request" where
  "ex_request m ct b qp =
     \<lparr>method = m, content_type = Some (Some ct), headers = Some [(''content-type'', ct)],
      data = Some b, body = None, raw_body = None, form = [], files = [],
      GET = None, args = Some qp, query_params = None\<rparr>"

definition ex_srequest ::
  "string \<Rightarrow> (string \<times> string) list \<Rightarrow> string \<Rightarrow> (string \<times> string) list \<Rightarrow> StarletteRequest" where
  "ex_srequest m hs b qp =
     \<lparr>s_method = m, s_headers = hs, s_query_params = qp, s_body = b, s_form = []\<rparr>"

section \<open>Unfolding rules\<close>

lemmas ex_defs = ex_env_def ex_env0_def ex_view_def ex_handler_def ex_request_def ex_srequest_def
  ex_loads_def ex_reason_def ex_kind_def ex_resolve_def spec_from_http_def spec_execute_def

lemmas string_defs = lower_def lower_char_def

lemmas response_defs = PlainTextResponse_def HTMLResponse_def new_Response_def init_headers_def

lemmas sync_defs = run_def is_request_allowed_def should_render_graphiql_def
  execute_operation_def parse_http_body_def request_content_type_def request_body_def
  get_query_params_def parse_query_params_def parse_json_def parse_form_def request_data_of_def
  dict_get_def

lemmas async_defs = handle_def get_http_response_def dispatch_def headers_get_def
  handler_should_render_graphiql_def get_graphiql_response_def handler_execute_def
  read_form_json_def merge_sub_response_def new_sub_response_def dict_get_def

section \<open>Methods other than GET and POST\<close>

text \<open>
  Claim C6, as amended. The ASGI handler answers every request whose method is neither
  \<open>GET\<close> nor \<open>POST\<close> with status 405 and the body \<open>Method Not Allowed\<close>; it calls
  no collaborator, and neither the headers nor the body of the request matter. The
  synchronous view rejects every request whose method, in lower case, is neither
  \<open>get\<close> nor \<open>post\<close>: it raises \<open>HTTPException\<close> with status 405 and the reason
  \<open>GraphQL only supports GET and POST requests.\<close>, before it builds the sub-response
  or reads anything of the request.
\<close>

theorem C6_method_not_allowed:
  "(s_method areq \<noteq> ''GET'' \<and> s_method areq \<noteq> ''POST'' \<longrightarrow>
      get_http_response h env areq execute proc_result root_value context
        = ([], Inr (PlainTextResponse ''Method Not Allowed'' 405))
      \<and> status_code (PlainTextResponse ''Method Not Allowed'' 405) = Some 405
      \<and> content (PlainTextResponse ''Method Not Allowed'' 405) = ''Method Not Allowed'')
   \<and> (lower (method req) \<noteq> ''get'' \<and> lower (method req) \<noteq> ''post'' \<longrightarrow>
      run v env req
        = ([], Inl (HTTPException 405 ''GraphQL only supports GET and POST requests.'')))"
  by (simp add: get_http_response_def dispatch_def run_def is_request_allowed_def response_defs)

text \<open>C6 at a PUT request that carries a JSON body, on both views.\<close>

theorem C6_method_not_allowed_witness:
  "s_method (ex_srequest ''PUT'' [(''content-type'', ''application/json'')] ''{}'' []) \<noteq> ''GET''
   \<and> s_method (ex_srequest ''PUT'' [(''content-type'', ''application/json'')] ''{}'' []) \<noteq> ''POST''
   \<and> get_http_response (ex_handler True True) ex_env
        (ex_srequest ''PUT'' [(''content-type'', ''application/json'')] ''{}'' [])
        (handler_execute (ex_handler True True)) (h_process_result (ex_handler True True))
        None ''context''
      = ([], Inr (PlainTextResponse ''Method Not Allowed'' 405))
   \<and> lower (method (ex_request ''put'' ''application/json'' ''{}'' [])) \<noteq> ''get''
   \<and> lower (method (ex_request ''put'' ''application/json'' ''{}'' [])) \<noteq> ''post''
   \<and> run (ex_view True) ex_env (ex_request ''put'' ''application/json'' ''{}'' [])
      = ([], Inl (HTTPException 405 ''GraphQL only supports GET and POST requests.''))"
  using C6_method_not_allowed
    [of "ex_srequest ''PUT'' [(''content-type'', ''application/json'')] ''{}'' []"
        "ex_handler True True" ex_env "handler_execute (ex_handler True True)"
        "h_process_result (ex_handler True True)" None "''context''"
        "ex_request ''put'' ''application/json'' ''{}'' []" "ex_view True"]
  by (simp add: ex_request_def ex_srequest_def string_defs)

text \<open>
  The claim as written fails on the synchronous view: at a PUT request the reason it
  raises is not \<open>Method Not Allowed\<close>.
\<close>

theorem C6_sync_reason_counterexample:
  "run (ex_view True) ex_env (ex_request ''PUT'' '''' '''' [])
     = ([], Inl (HTTPException 405 ''GraphQL only supports GET and POST requests.''))
   \<and> HTTPException 405 ''GraphQL only supports GET and POST requests.''
       \<noteq> HTTPException 405 ''Method Not Allowed''"
  by (simp add: run_def is_request_allowed_def ex_request_def string_defs)

section \<open>Unsupported content types\<close>

text \<open>
  Claim C2, as amended. For a POST request whose content type neither contains
  \<open>application/json\<close> nor starts with \<open>multipart/form-data\<close>, the ASGI handler
  responds with status 415 and the body \<open>Unsupported Media Type\<close>, and the synchronous
  view, once it has built the sub-response, raises \<open>HTTPException\<close> with status 400
  and the reason \<open>Unsupported content type\<close>.
\<close>

theorem C2_unsupported_content_type:
  "(s_method areq = ''POST''
      \<and> \<not> str_in ''application/json'' (headers_get areq ''Content-Type'' '''')
      \<and> \<not> startswith (headers_get areq ''Content-Type'' '''') ''multipart/form-data'' \<longrightarrow>
      get_http_response h env areq execute proc_result root_value context
        = ([], Inr (PlainTextResponse ''Unsupported Media Type'' 415))
      \<and> status_code (PlainTextResponse ''Unsupported Media Type'' 415) = Some 415
      \<and> content (PlainTextResponse ''Unsupported Media Type'' 415) = ''Unsupported Media Type'')
   \<and> (lower (method req) = ''post'' \<and> request_content_type req = Inr ct
      \<and> \<not> str_in ''application/json'' ct \<and> \<not> startswith ct ''multipart/form-data'' \<longrightarrow>
      run v env req = ([GetSubResponse], Inl (HTTPException 400 ''Unsupported content type'')))"
  by (simp add: get_http_response_def dispatch_def run_def is_request_allowed_def response_defs
      should_render_graphiql_def execute_operation_def parse_http_body_def)

text \<open>C2 at a POST request of content type \<open>text/plain\<close>, on both views.\<close>

theorem C2_unsupported_content_type_witness:
  "s_method (ex_srequest ''POST'' [(''content-type'', ''text/plain'')] ''{ hello }'' []) = ''POST''
   \<and> \<not> str_in ''application/json''
         (headers_get (ex_srequest ''POST'' [(''content-type'', ''text/plain'')] ''{ hello }'' [])
            ''Content-Type'' '''')
   \<and> \<not> startswith
         (headers_get (ex_srequest ''POST'' [(''content-type'', ''text/plain'')] ''{ hello }'' [])
            ''Content-Type'' '''') ''multipart/form-data''
   \<and> get_http_response (ex_handler True True) ex_env
        (ex_srequest ''POST'' [(''content-type'', ''text/plain'')] ''{ hello }'' [])
        (handler_execute (ex_handler True True)) (h_process_result (ex_handler True True))
        None ''context''
      = ([], Inr (PlainTextResponse ''Unsupported Media Type'' 415))
   \<and> lower (method (ex_request ''POST'' ''text/plain'' ''{ hello }'' [])) = ''post''
   \<and> request_content_type (ex_request ''POST'' ''text/plain'' ''{ hello }'' []) = Inr ''text/plain''
   \<and> \<not> str_in ''application/json'' ''text/plain''
   \<and> \<not> startswith ''text/plain'' ''multipart/form-data''
   \<and> run (ex_view True) ex_env (ex_request ''POST'' ''text/plain'' ''{ hello }'' [])
      = ([GetSubResponse], Inl (HTTPException 400 ''Unsupported content type''))"
  using C2_unsupported_content_type
    [of "ex_srequest ''POST'' [(''content-type'', ''text/plain'')] ''{ hello }'' []"
        "ex_handler True True" ex_env "handler_execute (ex_handler True True)"
        "h_process_result (ex_handler True True)" None "''context''"
        "ex_request ''POST'' ''text/plain'' ''{ hello }'' []" "''text/plain''" "ex_view True"]
  by (simp add: ex_request_def ex_srequest_def string_defs headers_get_def dict_get_def
      request_content_type_def)

text \<open>
  The claim as written fails on the synchronous view: at a POST request of content type
  \<open>text/plain\<close> it raises status 400, not 415.
\<close>

theorem C2_sync_status_counterexample:
  "run (ex_view True) ex_env (ex_request ''POST'' ''text/plain'' ''{ hello }'' [])
     = ([GetSubResponse], Inl (HTTPException 400 ''Unsupported content type''))
   \<and> HTTPException 400 ''Unsupported content type''
       \<noteq> HTTPException 415 ''Unsupported Media Type''"
  by (simp add: sync_defs ex_request_def string_defs)

section \<open>A GET request without a query string\<close>

text \<open>
  Claim C7, as amended. On the ASGI handler, a GET request with an empty query string
  is answered with the static console page and status 200 when the console is enabled
  and the Accept header contains \<open>text/html\<close> or \<open>*/*\<close>, and with status 404 and an
  empty body otherwise; in both cases \<open>get_http_response\<close> parses nothing and calls
  no collaborator.
\<close>

theorem C7_bare_get:
  "s_method areq = ''GET'' \<and> s_query_params areq = [] \<longrightarrow>
     (graphiql h \<and> (str_in ''text/html'' (headers_get areq ''accept'' '''')
                     \<or> str_in ''*/*'' (headers_get areq ''accept'' '''')) \<longrightarrow>
        get_http_response h env areq execute proc_result root_value context
          = ([], Inr (HTMLResponse (get_graphiql_html env) 200))
        \<and> status_code (HTMLResponse (get_graphiql_html env) 200) = Some 200
        \<and> content (HTMLResponse (get_graphiql_html env) 200) = get_graphiql_html env)
   \<and> (\<not> (graphiql h \<and> (str_in ''text/html'' (headers_get areq ''accept'' '''')
                        \<or> str_in ''*/*'' (headers_get areq ''accept'' ''''))) \<longrightarrow>
        get_http_response h env areq execute proc_result root_value context
          = ([], Inr (HTMLResponse '''' 404))
        \<and> status_code (HTMLResponse '''' 404) = Some 404
        \<and> content (HTMLResponse '''' 404) = '''')"
  by (auto simp add: get_http_response_def dispatch_def response_defs
      handler_should_render_graphiql_def get_graphiql_response_def)

text \<open>
  C7 at a bare GET that accepts \<open>text/html\<close>, with the console enabled and with the
  console disabled.
\<close>

theorem C7_bare_get_witness:
  "s_method (ex_srequest ''GET'' [(''accept'', ''text/html'')] '''' []) = ''GET''
   \<and> s_query_params (ex_srequest ''GET'' [(''accept'', ''text/html'')] '''' []) = []
   \<and> graphiql (ex_handler True True)
   \<and> str_in ''text/html''
        (headers_get (ex_srequest ''GET'' [(''accept'', ''text/html'')] '''' []) ''accept'' '''')
   \<and> get_http_response (ex_handler True True) ex_env
        (ex_srequest ''GET'' [(''accept'', ''text/html'')] '''' [])
        (handler_execute (ex_handler True True)) (h_process_result (ex_handler True True))
        None ''context''
      = ([], Inr (HTMLResponse (get_graphiql_html ex_env) 200))
   \<and> \<not> graphiql (ex_handler False True)
   \<and> get_http_response (ex_handler False True) ex_env
        (ex_srequest ''GET'' [(''accept'', ''text/html'')] '''' [])
        (handler_execute (ex_handler False True)) (h_process_result (ex_handler False True))
        None ''context''
      = ([], Inr (HTMLResponse '''' 404))"
  using C7_bare_get
    [of "ex_srequest ''GET'' [(''accept'', ''text/html'')] '''' []"
        "ex_handler True True" ex_env "handler_execute (ex_handler True True)"
        "h_process_result (ex_handler True True)" None "''context''"]
    C7_bare_get
    [of "ex_srequest ''GET'' [(''accept'', ''text/html'')] '''' []"
        "ex_handler False True" ex_env "handler_execute (ex_handler False True)"
        "h_process_result (ex_handler False True)" None "''context''"]
  by (simp add: ex_srequest_def ex_handler_def string_defs headers_get_def dict_get_def)

text \<open>
  The claim as written fails on the synchronous view, whose \<open>should_render_graphiql\<close>
  is constantly false and which has no 404 answer: a bare GET is parsed and handed to
  the engine.
\<close>

theorem C7_sync_bare_get_counterexample:
  "run (ex_view True) ex_env (ex_request ''GET'' '''' '''' [])
     = ([GetSubResponse, GetContext, GetRootValue,
         Execute \<lparr>query = JNull, variables = JNull, operation_name = JNull\<rparr> {QUERY}],
        Inl (HTTPException 400 ''No GraphQL query found in the request''))"
  by (simp add: sync_defs ex_defs string_defs)

section \<open>The response to an engine result\<close>

text \<open>
  Claim C9. When a request reaches execution on the ASGI handler and the engine returns
  a result, whatever the result carries, \<open>get_http_response\<close> builds a response of
  status 200 and content type \<open>application/json\<close> whose body is the encoded output of
  the process-result hook.
\<close>

theorem C9_result_response:
  "dispatch h env areq = Inr (Inr d) \<Longrightarrow>
   parse_request_data env d = Inr request_data \<Longrightarrow>
   from_http env (s_method areq) = Inr types \<Longrightarrow>
   execute (query request_data) (variables request_data) context
     (operation_name request_data) root_value
     (if \<not> h_allow_queries_via_get h \<and> s_method areq = ''GET'' then types - {QUERY} else types)
     = (tr, Inr result) \<Longrightarrow>
   get_http_response h env areq execute proc_result root_value context
     = (Execute request_data
          (if \<not> h_allow_queries_via_get h \<and> s_method areq = ''GET''
           then types - {QUERY} else types)
        # tr @ [ProcessResult, EncodeJson],
        Inr (new_Response (encode_json h (proc_result areq result)) 200
               (Some ''application/json'')))
   \<and> status_code (new_Response (encode_json h (proc_result areq result)) 200
                    (Some ''application/json'')) = Some 200
   \<and> media_type (new_Response (encode_json h (proc_result areq result)) 200
                    (Some ''application/json'')) = Some ''application/json''
   \<and> (''content-type'', ''application/json'')
       \<in> set (raw_headers (new_Response (encode_json h (proc_result areq result)) 200
                              (Some ''application/json'')))
   \<and> content (new_Response (encode_json h (proc_result areq result)) 200
                 (Some ''application/json'')) = encode_json h (proc_result areq result)"
  by (simp add: get_http_response_def response_defs)

text \<open>C9 at a JSON POST of the query \<open>{ hello }\<close>.\<close>

theorem C9_result_response_witness:
  \<open>dispatch (ex_handler True True) ex_env
      (ex_srequest ''POST'' [(''content-type'', ''application/json'')]
         ''{"query": "{ hello }"}'' [])
     = Inr (Inr (JObj [(''query'', JStr ''{ hello }'')]))
   \<and> parse_request_data ex_env (JObj [(''query'', JStr ''{ hello }'')])
       = Inr \<lparr>query = JStr ''{ hello }'', variables = JNull, operation_name = JNull\<rparr>
   \<and> from_http ex_env
        (s_method (ex_srequest ''POST'' [(''content-type'', ''application/json'')]
           ''{"query": "{ hello }"}'' []))
       = Inr {QUERY, MUTATION}
   \<and> handler_execute (ex_handler True True) (JStr ''{ hello }'') JNull ''context'' JNull None
        {QUERY, MUTATION} = ([], Inr ''result'')
   \<and> get_http_response (ex_handler True True) ex_env
          (ex_srequest ''POST'' [(''content-type'', ''application/json'')]
             ''{"query": "{ hello }"}'' [])
          (handler_execute (ex_handler True True)) (h_process_result (ex_handler True True))
          None ''context''
       = ([Execute \<lparr>query = JStr ''{ hello }'', variables = JNull, operation_name = JNull\<rparr>
             {QUERY, MUTATION}, ProcessResult, EncodeJson],
          Inr (new_Response ''result'' 200 (Some ''application/json'')))
   \<and> status_code (new_Response ''result'' 200 (Some ''application/json'')) = Some 200\<close>
  using C9_result_response
    [of "ex_handler True True" ex_env
        \<open>ex_srequest ''POST'' [(''content-type'', ''application/json'')]
           ''{"query": "{ hello }"}'' []\<close>
        "JObj [(''query'', JStr ''{ hello }'')]"
        "\<lparr>query = JStr ''{ hello }'', variables = JNull, operation_name = JNull\<rparr>"
        "{QUERY, MUTATION}" "handler_execute (ex_handler True True)" "''context''" None
        "[]" "''result''" "h_process_result (ex_handler True True)"]
  by (simp add: dispatch_def headers_get_def dict_get_def ex_defs string_defs
      request_data_of_def handler_execute_def)

section \<open>When the context and the root value are built\<close>

text \<open>
  Claim C4, as amended. The synchronous view calls \<open>get_context\<close> and
  \<open>get_root_value\<close> only when the request is admitted and its body has been parsed into
  request data. The ASGI handler calls \<open>get_root_value\<close> and then \<open>get_context\<close> at
  the start of \<open>handle\<close>, for every request, before the method is looked at and
  before anything is parsed.
\<close>

theorem C4_context_construction:
  "(GetContext \<in> set (fst (run v env req)) \<or> GetRootValue \<in> set (fst (run v env req)) \<longrightarrow>
      is_request_allowed req \<and> (\<exists>request_data. parse_http_body env req = Inr request_data))
   \<and> (\<exists>tr. fst (handle h env areq) = GetRootValue # GetContext # tr)"
proof
  show "GetContext \<in> set (fst (run v env req)) \<or> GetRootValue \<in> set (fst (run v env req)) \<longrightarrow>
      is_request_allowed req \<and> (\<exists>request_data. parse_http_body env req = Inr request_data)"
    by (auto simp add: run_def execute_operation_def should_render_graphiql_def
        split: if_splits sum.splits exn.splits prod.splits)
next
  show "\<exists>tr. fst (handle h env areq) = GetRootValue # GetContext # tr"
    by (simp add: handle_def split: prod.splits sum.splits)
qed

text \<open>
  C4 at a JSON POST on the synchronous view, where the context is built, and at a PUT
  request on the ASGI handler.
\<close>

theorem C4_context_construction_witness:
  \<open>GetContext \<in> set (fst (run (ex_view True) ex_env
       (ex_request ''POST'' ''application/json'' ''{"query": "{ hello }"}'' [])))
   \<and> is_request_allowed (ex_request ''POST'' ''application/json'' ''{"query": "{ hello }"}'' [])
   \<and> (\<exists>request_data.
         parse_http_body ex_env
           (ex_request ''POST'' ''application/json'' ''{"query": "{ hello }"}'' [])
         = Inr request_data)
   \<and> (\<exists>tr. fst (handle (ex_handler True True) ex_env (ex_srequest ''PUT'' [] '''' []))
         = GetRootValue # GetContext # tr)\<close>
proof -
  have "GetContext \<in> set (fst (run (ex_view True) ex_env
          (ex_request ''POST'' ''application/json'' ''{\"query\": \"{ hello }\"}'' [])))"
    by (simp add: sync_defs ex_defs string_defs)
  with C4_context_construction
         [of "ex_view True" ex_env
             \<open>ex_request ''POST'' ''application/json'' ''{"query": "{ hello }"}'' []\<close>
             "ex_handler True True" "ex_srequest ''PUT'' [] '''' []"]
  show ?thesis by blast
qed

text \<open>
  The claim as written fails on the ASGI handler: a PUT request, which is not admitted,
  has the root value and the context built all the same.
\<close>

theorem C4_async_counterexample:
  "fst (handle (ex_handler True True) ex_env (ex_srequest ''PUT'' [] '''' []))
     = [GetRootValue, GetContext, Send]
   \<and> s_method (ex_srequest ''PUT'' [] '''' []) \<noteq> ''GET''
   \<and> s_method (ex_srequest ''PUT'' [] '''' []) \<noteq> ''POST''"
  by (simp add: handle_def get_http_response_def dispatch_def ex_handler_def ex_srequest_def)

section \<open>Merging the sub-response\<close>

text \<open>
  Claim C5, as amended. When \<open>handle\<close> merges the sub-response of the context phase
  into the response of the protocol, the headers of the protocol response come first
  and the headers set during context construction are appended after them; the body is
  the protocol's; the final status code is the protocol's unless the context phase left
  a status that is neither None nor 0, which then wins.
\<close>

theorem C5_merge:
  "h_get_context h areq new_sub_response = (context, sub_response) \<Longrightarrow>
   get_http_response h env areq (handler_execute h) (h_process_result h)
     (h_get_root_value h areq) context = (tr, Inr response) \<Longrightarrow>
   \<exists>final.
     snd (handle h env areq) = Inr final
     \<and> raw_headers final = raw_headers response @ raw_headers sub_response
     \<and> content final = content response
     \<and> status_code final =
         (if status_code sub_response \<noteq> None \<and> status_code sub_response \<noteq> Some 0
          then status_code sub_response else status_code response)"
  by (simp add: handle_def merge_sub_response_def Let_def)

text \<open>C5 at a PUT request, with the example handler whose context phase sets a cookie.\<close>

theorem C5_merge_witness:
  "h_get_context (ex_handler True True) (ex_srequest ''PUT'' [] '''' []) new_sub_response
     = (''context'', new_sub_response\<lparr>raw_headers := [(''set-cookie'', ''a=1'')]\<rparr>)
   \<and> get_http_response (ex_handler True True) ex_env (ex_srequest ''PUT'' [] '''' [])
        (handler_execute (ex_handler True True)) (h_process_result (ex_handler True True))
        (h_get_root_value (ex_handler True True) (ex_srequest ''PUT'' [] '''' [])) ''context''
       = ([], Inr (PlainTextResponse ''Method Not Allowed'' 405))
   \<and> (\<exists>final.
         snd (handle (ex_handler True True) ex_env (ex_srequest ''PUT'' [] '''' [])) = Inr final
         \<and> raw_headers final
             = [(''content-length'', ''18''), (''content-type'', ''text/plain; charset=utf-8''),
                (''set-cookie'', ''a=1'')]
         \<and> status_code final = Some 405)"
proof -
  have c: "h_get_context (ex_handler True True) (ex_srequest ''PUT'' [] '''' []) new_sub_response
             = (''context'', new_sub_response\<lparr>raw_headers := [(''set-cookie'', ''a=1'')]\<rparr>)"
    by (simp add: ex_handler_def new_sub_response_def response_defs)
  have g: "get_http_response (ex_handler True True) ex_env (ex_srequest ''PUT'' [] '''' [])
        (handler_execute (ex_handler True True)) (h_process_result (ex_handler True True))
        (h_get_root_value (ex_handler True True) (ex_srequest ''PUT'' [] '''' [])) ''context''
       = ([], Inr (PlainTextResponse ''Method Not Allowed'' 405))"
    by (simp add: get_http_response_def dispatch_def ex_srequest_def)
  from C5_merge [OF c g] obtain final where
    "snd (handle (ex_handler True True) ex_env (ex_srequest ''PUT'' [] '''' [])) = Inr final"
    "raw_headers final = raw_headers (PlainTextResponse ''Method Not Allowed'' 405)
        @ raw_headers (new_sub_response\<lparr>raw_headers := [(''set-cookie'', ''a=1'')]\<rparr>)"
    "status_code final =
       (if status_code (new_sub_response\<lparr>raw_headers := [(''set-cookie'', ''a=1'')]\<rparr>) \<noteq> None
           \<and> status_code (new_sub_response\<lparr>raw_headers := [(''set-cookie'', ''a=1'')]\<rparr>) \<noteq> Some 0
        then status_code (new_sub_response\<lparr>raw_headers := [(''set-cookie'', ''a=1'')]\<rparr>)
        else status_code (PlainTextResponse ''Method Not Allowed'' 405))"
    by blast
  then have "snd (handle (ex_handler True True) ex_env (ex_srequest ''PUT'' [] '''' [])) = Inr final
         \<and> raw_headers final
             = [(''content-length'', ''18''), (''content-type'', ''text/plain; charset=utf-8''),
                (''set-cookie'', ''a=1'')]
         \<and> status_code final = Some 405"
    by (simp add: response_defs new_sub_response_def)
  with c g show ?thesis by blast
qed

text \<open>
  The claim as written fails: in the merged response the cookie set during context
  construction comes last, after the headers of the protocol response.
\<close>

theorem C5_header_order_counterexample:
  "snd (handle (ex_handler True True) ex_env (ex_srequest ''PUT'' [] '''' []))
     = Inr \<lparr>status_code = Some 405, content = ''Method Not Allowed'',
             media_type = Some ''text/plain'',
             raw_headers =
               [(''content-length'', ''18''), (''content-type'', ''text/plain; charset=utf-8''),
                (''set-cookie'', ''a=1'')],
             background = None\<rparr>"
  by (simp add: handle_def get_http_response_def dispatch_def ex_handler_def ex_srequest_def
      merge_sub_response_def new_sub_response_def response_defs)

section \<open>The casing of the method in the synchronous view\<close>

text \<open>
  The gate of \<open>execute_operation\<close>: whenever the engine is called, it is handed the set
  \<open>from_http\<close> returned, with \<open>QUERY\<close> taken out exactly when queries via GET are
  switched off and the method is the string \<open>GET\<close>.
\<close>

lemma fst_execute_operation:
  "fst (execute_operation v env req sub) =
     (case parse_http_body env req of
        Inl e \<Rightarrow> []
      | Inr request_data \<Rightarrow>
          (case from_http env (method req) of
             Inl e \<Rightarrow> [GetContext, GetRootValue]
           | Inr types \<Rightarrow>
               [GetContext, GetRootValue,
                Execute request_data
                  (if \<not> allow_queries_via_get v \<and> method req = ''GET''
                   then types - {QUERY} else types)]))"
  by (simp add: execute_operation_def Let_def split: sum.splits exn.splits prod.splits)

lemma fst_run:
  "is_request_allowed req \<Longrightarrow>
   \<exists>post. fst (run v env req)
            = GetSubResponse # fst (execute_operation v env req (get_sub_response v req)) @ post
          \<and> set post \<subseteq> {ProcessResult, CreateResponse}"
  by (simp add: run_def should_render_graphiql_def Let_def
      split: sum.splits exn.splits prod.splits)

lemma fst_run_not_allowed:
  "\<not> is_request_allowed req \<Longrightarrow> fst (run v env req) = []"
  by (simp add: run_def)

lemma run_Execute:
  assumes "Execute request_data allowed \<in> set (fst (run v env req))"
  shows "\<exists>types. from_http env (method req) = Inr types
     \<and> parse_http_body env req = Inr request_data
     \<and> allowed = (if \<not> allow_queries_via_get v \<and> method req = ''GET''
                   then types - {QUERY} else types)"
proof -
  have a: "is_request_allowed req"
    using assms fst_run_not_allowed [of req v env] by (cases "is_request_allowed req") auto
  from fst_run [OF a, of v env] obtain post where
    "fst (run v env req)
       = GetSubResponse # fst (execute_operation v env req (get_sub_response v req)) @ post"
    "set post \<subseteq> {ProcessResult, CreateResponse}"
    by blast
  with assms have
    "Execute request_data allowed
       \<in> set (fst (execute_operation v env req (get_sub_response v req)))"
    by auto
  then obtain rd types where "parse_http_body env req = Inr rd"
    and "from_http env (method req) = Inr types"
    and "Execute request_data allowed
           \<in> set [GetContext, GetRootValue,
                  Execute rd (if \<not> allow_queries_via_get v \<and> method req = ''GET''
                              then types - {QUERY} else types)]"
    by (cases "parse_http_body env req"; cases "from_http env (method req)")
       (simp_all add: fst_execute_operation)
  then show ?thesis by simp
qed

lemma run_reaches_Execute:
  assumes "is_request_allowed req" and "parse_http_body env req = Inr request_data"
    and "from_http env (method req) = Inr types"
  shows "Execute request_data
     (if \<not> allow_queries_via_get v \<and> method req = ''GET'' then types - {QUERY} else types)
     \<in> set (fst (run v env req))"
proof -
  from fst_run [OF assms(1), of v env] obtain post where
    "fst (run v env req)
       = GetSubResponse # fst (execute_operation v env req (get_sub_response v req)) @ post"
    by blast
  then show ?thesis
    using assms(2,3) by (simp add: fst_execute_operation)
qed

lemma run_after_execute_operation:
  "is_request_allowed req \<Longrightarrow>
   run v env req =
     (case execute_operation v env req (get_sub_response v req) of
        (tr, Inl (InvalidOperationTypeError k)) \<Rightarrow>
          (GetSubResponse # tr,
           Inl (HTTPException 400 (as_http_error_reason env k (method req))))
      | (tr, Inl MissingQueryError) \<Rightarrow>
          (GetSubResponse # tr,
           Inl (HTTPException 400 ''No GraphQL query found in the request''))
      | (tr, Inl e) \<Rightarrow> (GetSubResponse # tr, Inl e)
      | (tr, Inr (result, sub')) \<Rightarrow>
          (GetSubResponse # tr @ [ProcessResult, CreateResponse],
           Inr (create_response v (process_result v result) sub')))"
  by (simp add: run_def should_render_graphiql_def Let_def
      split: sum.splits exn.splits prod.splits)

lemma execute_operation_flag:
  "method req \<noteq> ''GET'' \<Longrightarrow>
   execute_operation (v\<lparr>allow_queries_via_get := b\<rparr>) env req sub
     = execute_operation v env req sub"
  by (auto simp add: execute_operation_def Let_def split: sum.splits exn.splits prod.splits)

lemma run_flag:
  "method req \<noteq> ''GET'' \<Longrightarrow> run (v\<lparr>allow_queries_via_get := b\<rparr>) env req = run v env req"
  by (auto simp add: run_def execute_operation_flag Let_def
      split: sum.splits exn.splits prod.splits)

lemma executes_empty:
  "(executes tr = []) = (\<forall>request_data allowed. Execute request_data allowed \<notin> set tr)"
  by (auto simp add: executes_def filter_empty_conv split: event.splits)

text \<open>
  Claim C10, as amended. In the synchronous view a request whose method is \<open>get\<close> in a
  casing other than \<open>GET\<close> is admitted, and its query parameters are parsed as those of a
  GET request; the restriction of \<open>allow_queries_via_get\<close> is not applied to it: the view
  does the same with the flag off as with the flag on, and any set of allowed operation
  types it hands to the engine is the one \<open>from_http\<close> returned for the method as
  written. With \<open>from_http\<close> as the specification gives it, which knows \<open>GET\<close> and
  \<open>POST\<close> only, there is no such set: once the request is parsed and the context and
  root value are built, the request ends in the error of \<open>from_http\<close>, and the engine is
  never called.
\<close>

theorem C10_get_casing:
  "lower (method req) = ''get'' \<Longrightarrow> method req \<noteq> ''GET'' \<Longrightarrow>
   is_request_allowed req
   \<and> (\<forall>ct qp. request_content_type req = Inr ct \<longrightarrow> \<not> str_in ''application/json'' ct \<longrightarrow>
         \<not> startswith ct ''multipart/form-data'' \<longrightarrow> get_query_params req = Inr qp \<longrightarrow>
         parse_http_body env req
           = (case parse_query_params env qp of Inl e \<Rightarrow> Inl e | Inr d \<Rightarrow> request_data_of d))
   \<and> run (v\<lparr>allow_queries_via_get := False\<rparr>) env req
       = run (v\<lparr>allow_queries_via_get := True\<rparr>) env req
   \<and> (\<forall>request_data allowed.
         Execute request_data allowed \<in> set (fst (run v env req)) \<longrightarrow>
         from_http env (method req) = Inr allowed)
   \<and> (from_http env (method req) = spec_from_http (method req) \<longrightarrow>
         executes (fst (run v env req)) = []
         \<and> (\<forall>request_data.
               parse_http_body env req = Inr request_data \<longrightarrow>
               run v env req = ([GetSubResponse, GetContext, GetRootValue], Inl ValueError)))"
proof (intro conjI allI impI)
  assume l: "lower (method req) = ''get''" and n: "method req \<noteq> ''GET''"
  show a: "is_request_allowed req"
    using l by (simp add: is_request_allowed_def)
  show "parse_http_body env req
          = (case parse_query_params env qp of Inl e \<Rightarrow> Inl e | Inr d \<Rightarrow> request_data_of d)"
    if "request_content_type req = Inr ct" "\<not> str_in ''application/json'' ct"
       "\<not> startswith ct ''multipart/form-data''" "get_query_params req = Inr qp" for ct qp
    using that l by (simp add: parse_http_body_def)
  show "run (v\<lparr>allow_queries_via_get := False\<rparr>) env req
          = run (v\<lparr>allow_queries_via_get := True\<rparr>) env req"
    using n by (simp add: run_flag)
  show x: "from_http env (method req) = Inr allowed"
    if "Execute request_data allowed \<in> set (fst (run v env req))" for request_data allowed
    using run_Execute [OF that] n by auto
  assume s: "from_http env (method req) = spec_from_http (method req)"
  have "method req \<noteq> ''POST''"
    using l by (auto simp add: string_defs)
  with s n have f: "from_http env (method req) = Inl ValueError"
    by (simp add: spec_from_http_def)
  show "executes (fst (run v env req)) = []"
    using x f by (auto simp add: executes_empty)
  show "run v env req = ([GetSubResponse, GetContext, GetRootValue], Inl ValueError)"
    if p: "parse_http_body env req = Inr request_data" for request_data
  proof -
    have "execute_operation v env req (get_sub_response v req)
            = ([GetContext, GetRootValue], Inl ValueError)"
      using p f by (simp add: execute_operation_def split: prod.splits)
    then show ?thesis
      by (simp add: run_after_execute_operation [OF a])
  qed
qed

text \<open>
  C10 at the method \<open>get\<close> on the example view, with \<open>from_http\<close> as the specification
  gives it.
\<close>

theorem C10_get_casing_witness:
  "lower (method (ex_request ''get'' '''' '''' [(''query'', ''{ hello }'')])) = ''get''
   \<and> method (ex_request ''get'' '''' '''' [(''query'', ''{ hello }'')]) \<noteq> ''GET''
   \<and> is_request_allowed (ex_request ''get'' '''' '''' [(''query'', ''{ hello }'')])
   \<and> from_http ex_env (method (ex_request ''get'' '''' '''' [(''query'', ''{ hello }'')]))
       = spec_from_http (method (ex_request ''get'' '''' '''' [(''query'', ''{ hello }'')]))
   \<and> parse_http_body ex_env (ex_request ''get'' '''' '''' [(''query'', ''{ hello }'')])
       = Inr \<lparr>query = JStr ''{ hello }'', variables = JNull, operation_name = JNull\<rparr>
   \<and> run ((ex_view True)\<lparr>allow_queries_via_get := False\<rparr>) ex_env
        (ex_request ''get'' '''' '''' [(''query'', ''{ hello }'')])
       = run ((ex_view True)\<lparr>allow_queries_via_get := True\<rparr>) ex_env
           (ex_request ''get'' '''' '''' [(''query'', ''{ hello }'')])
   \<and> executes (fst (run (ex_view True) ex_env
        (ex_request ''get'' '''' '''' [(''query'', ''{ hello }'')]))) = []
   \<and> run (ex_view True) ex_env (ex_request ''get'' '''' '''' [(''query'', ''{ hello }'')])
       = ([GetSubResponse, GetContext, GetRootValue], Inl ValueError)"
proof -
  let ?req = "ex_request ''get'' '''' '''' [(''query'', ''{ hello }'')]"
  let ?rd = "\<lparr>query = JStr ''{ hello }'', variables = JNull, operation_name = JNull\<rparr>"
  have l: "lower (method ?req) = ''get''"
    by (simp add: ex_request_def string_defs)
  have n: "method ?req \<noteq> ''GET''"
    by (simp add: ex_request_def)
  have p: "parse_http_body ex_env ?req = Inr ?rd"
    by (simp add: parse_http_body_def request_content_type_def get_query_params_def
        parse_query_params_def request_data_of_def dict_get_def ex_request_def ex_env_def
        ex_env0_def string_defs)
  have f: "from_http ex_env (method ?req) = spec_from_http (method ?req)"
    by (simp add: ex_env_def ex_env0_def)
  from C10_get_casing [OF l n, of ex_env "ex_view True"] p f
  show ?thesis using l n by blast
qed

text \<open>
  The claim as written fails: at the method \<open>get\<close>, with queries via GET switched off,
  no set of allowed operation types reaches the engine, with \<open>QUERY\<close> or without; the
  admitted request ends in the error of \<open>from_http\<close>.
\<close>

theorem C10_from_http_counterexample:
  "is_request_allowed (ex_request ''get'' '''' '''' [(''query'', ''{ hello }'')])
   \<and> run (ex_view False) ex_env (ex_request ''get'' '''' '''' [(''query'', ''{ hello }'')])
       = ([GetSubResponse, GetContext, GetRootValue], Inl ValueError)
   \<and> from_http ex_env ''get'' = Inl ValueError"
  by (simp add: sync_defs ex_defs string_defs)

section \<open>The \<open>variables\<close> parameter of a GET request\<close>

lemma dict_get_update:
  "dict_get (AList.update k v al) k dflt = v"
  by (simp add: dict_get_def update_conv')

text \<open>
  Claim C8, as amended. On the ASGI handler, for every GET request with a non-empty
  query string: when the query-parameter helper raises \<open>JSONDecodeError\<close> the response
  is status 400 with the body \<open>Unable to parse request body as JSON\<close> and the engine is
  not called; and with the helper doing what the view's \<open>parse_query_params\<close> does, a
  \<open>variables\<close> parameter that is present is JSON-decoded, a failure to decode it giving
  that response. On the synchronous view the same holds for a request whose method is
  \<open>get\<close> in lower case, provided its content type neither contains
  \<open>application/json\<close> nor starts with \<open>multipart/form-data\<close> (the content type is
  dispatched before the method): the decoded value becomes the \<open>variables\<close> of the
  request data, and a failure to decode raises status 400 with that reason before the
  context is built or the engine called.
\<close>

theorem C8_get_variables:
  "(s_method areq = ''GET'' \<and> s_query_params areq \<noteq> [] \<longrightarrow>
      (http_parse_query_params env (s_query_params areq) = Inl JSONDecodeError \<longrightarrow>
         get_http_response h env areq execute proc_result root_value context
           = ([], Inr (PlainTextResponse ''Unable to parse request body as JSON'' 400)))
      \<and> (http_parse_query_params env = parse_query_params env \<longrightarrow>
           map_of (s_query_params areq) ''variables'' = Some s \<longrightarrow>
           (json_loads env s = None \<longrightarrow>
              get_http_response h env areq execute proc_result root_value context
                = ([], Inr (PlainTextResponse ''Unable to parse request body as JSON'' 400))
              \<and> status_code (PlainTextResponse ''Unable to parse request body as JSON'' 400)
                  = Some 400
              \<and> content (PlainTextResponse ''Unable to parse request body as JSON'' 400)
                  = ''Unable to parse request body as JSON'')
           \<and> (\<forall>j. json_loads env s = Some j \<longrightarrow>
                 dispatch h env areq
                   = Inr (Inr (JObj (AList.update ''variables'' j
                                       (map (\<lambda>(k, v). (k, JStr v)) (s_query_params areq))))))))
   \<and> (lower (method req) = ''get'' \<and> request_content_type req = Inr ct
        \<and> \<not> str_in ''application/json'' ct \<and> \<not> startswith ct ''multipart/form-data''
        \<and> get_query_params req = Inr qp \<and> map_of qp ''variables'' = Some s' \<longrightarrow>
      (json_loads env s' = None \<longrightarrow>
         run v env req
           = ([GetSubResponse],
              Inl (HTTPException 400 ''Unable to parse request body as JSON'')))
      \<and> (\<forall>j. json_loads env s' = Some j \<longrightarrow>
            (\<exists>request_data. parse_http_body env req = Inr request_data
                            \<and> variables request_data = j)))"
proof (intro conjI impI allI)
  assume a: "s_method areq = ''GET'' \<and> s_query_params areq \<noteq> []"
  show g: "get_http_response h env areq execute proc_result root_value context
             = ([], Inr (PlainTextResponse ''Unable to parse request body as JSON'' 400))"
    if "http_parse_query_params env (s_query_params areq) = Inl JSONDecodeError"
    using a that by (simp add: get_http_response_def dispatch_def)
  assume e: "http_parse_query_params env = parse_query_params env"
    and m: "map_of (s_query_params areq) ''variables'' = Some s"
  show "get_http_response h env areq execute proc_result root_value context
          = ([], Inr (PlainTextResponse ''Unable to parse request body as JSON'' 400))"
    if "json_loads env s = None"
    using g e m that by (simp add: parse_query_params_def)
  show "status_code (PlainTextResponse ''Unable to parse request body as JSON'' 400) = Some 400"
    by (simp add: response_defs)
  show "content (PlainTextResponse ''Unable to parse request body as JSON'' 400)
          = ''Unable to parse request body as JSON''"
    by (simp add: response_defs)
  show "dispatch h env areq
          = Inr (Inr (JObj (AList.update ''variables'' j
                              (map (\<lambda>(k, v). (k, JStr v)) (s_query_params areq)))))"
    if "json_loads env s = Some j" for j
    using a e m that by (simp add: dispatch_def parse_query_params_def)
next
  assume a: "lower (method req) = ''get'' \<and> request_content_type req = Inr ct
        \<and> \<not> str_in ''application/json'' ct \<and> \<not> startswith ct ''multipart/form-data''
        \<and> get_query_params req = Inr qp \<and> map_of qp ''variables'' = Some s'"
  show "run v env req
          = ([GetSubResponse], Inl (HTTPException 400 ''Unable to parse request body as JSON''))"
    if "json_loads env s' = None"
    using a that
    by (simp add: run_def is_request_allowed_def should_render_graphiql_def
        execute_operation_def parse_http_body_def parse_query_params_def)
  show "\<exists>request_data. parse_http_body env req = Inr request_data \<and> variables request_data = j"
    if "json_loads env s' = Some j" for j
    using a that
    by (simp add: parse_http_body_def parse_query_params_def request_data_of_def
        dict_get_update)
qed

text \<open>
  C8 at a GET request whose \<open>variables\<close> parameter is the undecodable text \<open>{\<close>, on
  both views.
\<close>

theorem C8_get_variables_witness:
  "s_method (ex_srequest ''GET'' [] '''' [(''query'', ''{ hello }''), (''variables'', ''{'')])
     = ''GET''
   \<and> s_query_params
        (ex_srequest ''GET'' [] '''' [(''query'', ''{ hello }''), (''variables'', ''{'')]) \<noteq> []
   \<and> http_parse_query_params ex_env = parse_query_params ex_env
   \<and> map_of (s_query_params
        (ex_srequest ''GET'' [] '''' [(''query'', ''{ hello }''), (''variables'', ''{'')]))
        ''variables'' = Some ''{''
   \<and> json_loads ex_env ''{'' = None
   \<and> get_http_response (ex_handler True True) ex_env
        (ex_srequest ''GET'' [] '''' [(''query'', ''{ hello }''), (''variables'', ''{'')])
        (handler_execute (ex_handler True True)) (h_process_result (ex_handler True True))
        None ''context''
       = ([], Inr (PlainTextResponse ''Unable to parse request body as JSON'' 400))
   \<and> lower (method (ex_request ''GET'' '''' ''''
                       [(''query'', ''{ hello }''), (''variables'', ''{'')])) = ''get''
   \<and> request_content_type
        (ex_request ''GET'' '''' '''' [(''query'', ''{ hello }''), (''variables'', ''{'')])
       = Inr ''''
   \<and> get_query_params
        (ex_request ''GET'' '''' '''' [(''query'', ''{ hello }''), (''variables'', ''{'')])
       = Inr [(''query'', ''{ hello }''), (''variables'', ''{'')]
   \<and> run (ex_view True) ex_env
        (ex_request ''GET'' '''' '''' [(''query'', ''{ hello }''), (''variables'', ''{'')])
       = ([GetSubResponse], Inl (HTTPException 400 ''Unable to parse request body as JSON''))"
proof -
  let ?qp = "[(''query'', ''{ hello }''), (''variables'', ''{'')]"
  have e: "http_parse_query_params ex_env = parse_query_params ex_env"
    by (rule ext) (simp add: ex_env_def ex_env0_def parse_query_params_def split: option.splits)
  have l: "json_loads ex_env ''{'' = None"
    by (simp add: ex_defs)
  have s: "s_method (ex_srequest ''GET'' [] '''' ?qp) = ''GET''
           \<and> s_query_params (ex_srequest ''GET'' [] '''' ?qp) \<noteq> []"
    and m: "map_of (s_query_params (ex_srequest ''GET'' [] '''' ?qp)) ''variables'' = Some ''{''"
    by (simp_all add: ex_srequest_def)
  have r: "lower (method (ex_request ''GET'' '''' '''' ?qp)) = ''get''
           \<and> request_content_type (ex_request ''GET'' '''' '''' ?qp) = Inr ''''
           \<and> \<not> str_in ''application/json'' '''' \<and> \<not> startswith '''' ''multipart/form-data''
           \<and> get_query_params (ex_request ''GET'' '''' '''' ?qp) = Inr ?qp
           \<and> map_of ?qp ''variables'' = Some ''{''"
    by (simp add: ex_request_def string_defs request_content_type_def get_query_params_def)
  from C8_get_variables
         [of "ex_srequest ''GET'' [] '''' ?qp" ex_env "ex_handler True True"
             "handler_execute (ex_handler True True)" "h_process_result (ex_handler True True)"
             None "''context''" "''{''" "ex_request ''GET'' '''' '''' ?qp" "''''" ?qp "''{''"
             "ex_view True"]
    e l s m r
  show ?thesis by blast
qed

text \<open>
  The claim as written fails on the synchronous view: a GET request of content type
  \<open>application/json\<close> is parsed from its body, its undecodable \<open>variables\<close> parameter
  is never read, and the query of the body is executed.
\<close>

theorem C8_sync_content_type_counterexample:
  \<open>run (ex_view True) ex_env
      (ex_request ''GET'' ''application/json'' ''{"query": "{ hello }"}''
         [(''variables'', ''{'')])
     = ([GetSubResponse, GetContext, GetRootValue,
         Execute \<lparr>query = JStr ''{ hello }'', variables = JNull, operation_name = JNull\<rparr>
           {QUERY},
         ProcessResult, CreateResponse],
        Inr ''result'')
   \<and> get_query_params
        (ex_request ''GET'' ''application/json'' ''{"query": "{ hello }"}''
           [(''variables'', ''{'')])
       = Inr [(''variables'', ''{'')]
   \<and> json_loads ex_env ''{'' = None\<close>
  by (simp add: sync_defs ex_defs string_defs)

section \<open>Queries via GET switched off\<close>

lemma snd_execute_operation:
  "parse_http_body env req = Inr request_data \<Longrightarrow> from_http env (method req) = Inr types \<Longrightarrow>
   snd (execute_operation v env req sub) =
     (case execute_sync v (query request_data) (get_root_value v req) (variables request_data)
             (fst (get_context v req sub)) (operation_name request_data)
             (if \<not> allow_queries_via_get v \<and> method req = ''GET''
              then types - {QUERY} else types) of
        Inl e \<Rightarrow> Inl e
      | Inr result \<Rightarrow> Inr (result, snd (get_context v req sub)))"
  by (simp add: execute_operation_def Let_def split: sum.splits prod.splits)

lemma run_ProcessResult:
  "ProcessResult \<in> set (fst (run v env req)) \<Longrightarrow>
   \<exists>request_data allowed result.
     Execute request_data allowed \<in> set (fst (run v env req))
     \<and> execute_sync v (query request_data) (get_root_value v req) (variables request_data)
          (fst (get_context v req (get_sub_response v req))) (operation_name request_data)
          allowed = Inr result"
  by (auto simp add: run_def should_render_graphiql_def execute_operation_def Let_def
      split: if_splits sum.splits exn.splits prod.splits)

lemma get_http_response_executes:
  "dispatch h env areq = Inr (Inr d) \<Longrightarrow> parse_request_data env d = Inr request_data \<Longrightarrow>
   from_http env (s_method areq) = Inr types \<Longrightarrow>
   allowed = (if \<not> h_allow_queries_via_get h \<and> s_method areq = ''GET''
              then types - {QUERY} else types) \<Longrightarrow>
   get_http_response h env areq (handler_execute h) proc_result root_value context =
     (case schema_execute h (query request_data) root_value (variables request_data) context
             (operation_name request_data) allowed of
        Inl (InvalidOperationTypeError k) \<Rightarrow>
          (Execute request_data allowed # (if debug h then [DebugPrint] else []),
           Inr (PlainTextResponse (as_http_error_reason env k (s_method areq)) 400))
      | Inl MissingQueryError \<Rightarrow>
          (Execute request_data allowed # (if debug h then [DebugPrint] else []),
           Inr (PlainTextResponse ''No GraphQL query found in the request'' 400))
      | Inl e \<Rightarrow> (Execute request_data allowed # (if debug h then [DebugPrint] else []), Inl e)
      | Inr result \<Rightarrow>
          (Execute request_data allowed # (if debug h then [DebugPrint] else [])
             @ [ProcessResult, EncodeJson],
           Inr (new_Response (encode_json h (proc_result areq result)) 200
                  (Some ''application/json''))))"
  by (simp add: get_http_response_def handler_execute_def Let_def
      split: sum.splits exn.splits)

lemma get_http_response_no_execute:
  "(\<forall>d. dispatch h env areq \<noteq> Inr (Inr d))
   \<or> (\<exists>d. dispatch h env areq = Inr (Inr d)
           \<and> (\<forall>request_data. parse_request_data env d \<noteq> Inr request_data))
   \<or> (\<forall>types. from_http env (s_method areq) \<noteq> Inr types) \<Longrightarrow>
   fst (get_http_response h env areq execute proc_result root_value context) = []"
  by (auto simp add: get_http_response_def Let_def split: sum.splits exn.splits)

lemma get_http_response_trace:
  assumes "ev \<in> set (fst (get_http_response h env areq (handler_execute h) proc_result
                            root_value context))"
  shows "\<exists>d request_data types.
           dispatch h env areq = Inr (Inr d) \<and> parse_request_data env d = Inr request_data
           \<and> from_http env (s_method areq) = Inr types"
proof (rule ccontr)
  assume "\<not> ?thesis"
  then have "(\<forall>d. dispatch h env areq \<noteq> Inr (Inr d))
   \<or> (\<exists>d. dispatch h env areq = Inr (Inr d)
           \<and> (\<forall>request_data. parse_request_data env d \<noteq> Inr request_data))
   \<or> (\<forall>types. from_http env (s_method areq) \<noteq> Inr types)"
    by (cases "dispatch h env areq") auto
  from get_http_response_no_execute [OF this] assms show False
    by simp
qed

lemma get_http_response_Execute:
  assumes "Execute request_data allowed
             \<in> set (fst (get_http_response h env areq (handler_execute h) proc_result
                            root_value context))"
  shows "\<exists>d types. dispatch h env areq = Inr (Inr d)
           \<and> parse_request_data env d = Inr request_data
           \<and> from_http env (s_method areq) = Inr types
           \<and> allowed = (if \<not> h_allow_queries_via_get h \<and> s_method areq = ''GET''
                         then types - {QUERY} else types)"
proof -
  from get_http_response_trace [OF assms] obtain d rd types where
    d: "dispatch h env areq = Inr (Inr d)" and p: "parse_request_data env d = Inr rd"
    and f: "from_http env (s_method areq) = Inr types"
    by blast
  let ?allowed = "if \<not> h_allow_queries_via_get h \<and> s_method areq = ''GET''
                  then types - {QUERY} else types"
  from assms have "request_data = rd \<and> allowed = ?allowed"
    unfolding get_http_response_executes [OF d p f refl]
    by (auto split: sum.splits exn.splits if_splits)
  with d p f show ?thesis by auto
qed

lemma spec_execute_empty:
  "spec_execute declared_kind resolve q root_value vars context opname {} =
     (case declared_kind q opname of
        None \<Rightarrow> Inl MissingQueryError
      | Some k \<Rightarrow> Inl (InvalidOperationTypeError k))"
  by (simp add: spec_execute_def split: option.splits)

lemma spec_execute_rejects:
  "rejects_disallowed declared_kind (spec_execute declared_kind resolve)"
  by (simp add: rejects_disallowed_def spec_execute_def)

text \<open>
  Claim C1, as amended. For a request whose method is \<open>GET\<close>, with queries via GET
  switched off, every set of allowed operation types that either view hands to the
  engine is the set \<open>from_http\<close> gives for GET with \<open>QUERY\<close> removed: it does not
  contain \<open>QUERY\<close>, and with the GET-legal set of the specification it is empty. With
  that empty set and an engine that keeps the contract of the gate, every operation such
  a request submits (a query document with a declared kind) is rejected: the engine is
  called once, nothing is executed, and the answer is status 400 with the reason of the
  invalid-operation-type error. A request that reaches the engine without a usable query
  does not fail at the gate: when the engine raises the missing-query error, the answer
  is status 400 with the reason \<open>No GraphQL query found in the request\<close>.
\<close>

theorem C1_no_queries_via_get:
  "(\<not> allow_queries_via_get v \<and> method req = ''GET'' \<longrightarrow>
      (\<forall>request_data allowed.
          Execute request_data allowed \<in> set (fst (run v env req)) \<longrightarrow>
          QUERY \<notin> allowed \<and> (from_http env ''GET'' = spec_from_http ''GET'' \<longrightarrow> allowed = {}))
      \<and> (from_http env ''GET'' = spec_from_http ''GET'' \<longrightarrow>
          (\<forall>request_data.
             parse_http_body env req = Inr request_data \<longrightarrow>
             (\<forall>k. rejects_disallowed declared_kind (execute_sync v) \<longrightarrow>
                  declared_kind (query request_data) (operation_name request_data) = Some k \<longrightarrow>
                  run v env req
                    = ([GetSubResponse, GetContext, GetRootValue, Execute request_data {}],
                       Inl (HTTPException 400 (as_http_error_reason env k ''GET''))))
             \<and> (execute_sync v (query request_data) (get_root_value v req)
                   (variables request_data)
                   (fst (get_context v req (get_sub_response v req)))
                   (operation_name request_data) {} = Inl MissingQueryError \<longrightarrow>
                 run v env req
                   = ([GetSubResponse, GetContext, GetRootValue, Execute request_data {}],
                      Inl (HTTPException 400 ''No GraphQL query found in the request''))))))
   \<and> (\<not> h_allow_queries_via_get h \<and> s_method areq = ''GET'' \<longrightarrow>
      (\<forall>request_data allowed.
          Execute request_data allowed
            \<in> set (fst (get_http_response h env areq (handler_execute h) proc_result
                           root_value context)) \<longrightarrow>
          QUERY \<notin> allowed \<and> (from_http env ''GET'' = spec_from_http ''GET'' \<longrightarrow> allowed = {}))
      \<and> (from_http env ''GET'' = spec_from_http ''GET'' \<longrightarrow>
          (\<forall>d request_data.
             dispatch h env areq = Inr (Inr d) \<longrightarrow>
             parse_request_data env d = Inr request_data \<longrightarrow>
             (\<forall>k. rejects_disallowed declared_kind (schema_execute h) \<longrightarrow>
                  declared_kind (query request_data) (operation_name request_data) = Some k \<longrightarrow>
                  get_http_response h env areq (handler_execute h) proc_result root_value context
                    = (Execute request_data {} # (if debug h then [DebugPrint] else []),
                       Inr (PlainTextResponse (as_http_error_reason env k ''GET'') 400))
                  \<and> status_code (PlainTextResponse (as_http_error_reason env k ''GET'') 400)
                      = Some 400)
             \<and> (schema_execute h (query request_data) root_value (variables request_data)
                   context (operation_name request_data) {} = Inl MissingQueryError \<longrightarrow>
                 get_http_response h env areq (handler_execute h) proc_result root_value context
                   = (Execute request_data {} # (if debug h then [DebugPrint] else []),
                      Inr (PlainTextResponse ''No GraphQL query found in the request'' 400))))))"
proof (intro conjI impI allI)
  assume a: "\<not> allow_queries_via_get v \<and> method req = ''GET''"
  then have adm: "is_request_allowed req"
    by (simp add: is_request_allowed_def string_defs)
  show "QUERY \<notin> allowed"
    if "Execute request_data allowed \<in> set (fst (run v env req))" for request_data allowed
    using run_Execute [OF that] a by auto
  show "allowed = {}"
    if "Execute request_data allowed \<in> set (fst (run v env req))"
      and "from_http env ''GET'' = spec_from_http ''GET''"
    for request_data allowed
    using run_Execute [OF that(1)] a that(2) by (auto simp add: spec_from_http_def)
  fix request_data
  assume s: "from_http env ''GET'' = spec_from_http ''GET''"
    and p: "parse_http_body env req = Inr request_data"
  from s a have f: "from_http env (method req) = Inr {QUERY}"
    by (simp add: spec_from_http_def)
  let ?r = "execute_sync v (query request_data) (get_root_value v req)
              (variables request_data) (fst (get_context v req (get_sub_response v req)))
              (operation_name request_data) {}"
  have tr: "fst (execute_operation v env req (get_sub_response v req))
              = [GetContext, GetRootValue, Execute request_data {}]"
    using a p f by (simp add: fst_execute_operation)
  have out: "snd (execute_operation v env req (get_sub_response v req))
              = (case ?r of Inl e \<Rightarrow> Inl e
                 | Inr result \<Rightarrow> Inr (result, snd (get_context v req (get_sub_response v req))))"
    using a by (simp add: snd_execute_operation [OF p f])
  show "run v env req
          = ([GetSubResponse, GetContext, GetRootValue, Execute request_data {}],
             Inl (HTTPException 400 (as_http_error_reason env k ''GET'')))"
    if c: "rejects_disallowed declared_kind (execute_sync v)"
      and k: "declared_kind (query request_data) (operation_name request_data) = Some k"
    for k
  proof -
    from c k have "?r = Inl (InvalidOperationTypeError k)"
      by (simp add: rejects_disallowed_def)
    with tr out have "execute_operation v env req (get_sub_response v req)
            = ([GetContext, GetRootValue, Execute request_data {}],
               Inl (InvalidOperationTypeError k))"
      by (simp add: prod_eq_iff)
    then show ?thesis
      using a by (simp add: run_after_execute_operation [OF adm])
  qed
  show "run v env req
          = ([GetSubResponse, GetContext, GetRootValue, Execute request_data {}],
             Inl (HTTPException 400 ''No GraphQL query found in the request''))"
    if "?r = Inl MissingQueryError"
  proof -
    from that tr out have "execute_operation v env req (get_sub_response v req)
            = ([GetContext, GetRootValue, Execute request_data {}], Inl MissingQueryError)"
      by (simp add: prod_eq_iff)
    then show ?thesis
      by (simp add: run_after_execute_operation [OF adm])
  qed
next
  let ?g = "get_http_response h env areq (handler_execute h) proc_result root_value context"
  assume a: "\<not> h_allow_queries_via_get h \<and> s_method areq = ''GET''"
  show "QUERY \<notin> allowed"
    if "Execute request_data allowed \<in> set (fst ?g)" for request_data allowed
    using get_http_response_Execute [OF that] a by auto
  show "allowed = {}"
    if "Execute request_data allowed \<in> set (fst ?g)"
      and "from_http env ''GET'' = spec_from_http ''GET''"
    for request_data allowed
    using get_http_response_Execute [OF that(1)] a that(2) by (auto simp add: spec_from_http_def)
  fix d request_data
  assume s: "from_http env ''GET'' = spec_from_http ''GET''"
    and d: "dispatch h env areq = Inr (Inr d)"
    and p: "parse_request_data env d = Inr request_data"
  from s a have f: "from_http env (s_method areq) = Inr {QUERY}"
    by (simp add: spec_from_http_def)
  have al: "{} = (if \<not> h_allow_queries_via_get h \<and> s_method areq = ''GET''
                  then {QUERY} - {QUERY} else {QUERY})"
    using a by simp
  note g = get_http_response_executes [OF d p f al, of proc_result root_value "context"]
  show "?g = (Execute request_data {} # (if debug h then [DebugPrint] else []),
              Inr (PlainTextResponse (as_http_error_reason env k ''GET'') 400))"
    if c: "rejects_disallowed declared_kind (schema_execute h)"
      and k: "declared_kind (query request_data) (operation_name request_data) = Some k"
    for k
  proof -
    from c k have "schema_execute h (query request_data) root_value (variables request_data)
                     context (operation_name request_data) {}
                   = Inl (InvalidOperationTypeError k)"
      by (simp add: rejects_disallowed_def)
    then show ?thesis
      using a by (simp add: g)
  qed
  show "status_code (PlainTextResponse (as_http_error_reason env k ''GET'') 400) = Some 400"
    for k
    by (simp add: response_defs)
  show "?g = (Execute request_data {} # (if debug h then [DebugPrint] else []),
              Inr (PlainTextResponse ''No GraphQL query found in the request'' 400))"
    if "schema_execute h (query request_data) root_value (variables request_data)
          context (operation_name request_data) {} = Inl MissingQueryError"
    using that by (simp add: g)
qed

text \<open>
  C1 on both views, with queries via GET switched off, the GET-legal set of the
  specification and the example engine: at the request \<open>GET /?query={ hello }\<close>, which
  submits a query, and at the request \<open>GET /?x=1\<close>, which submits none.
\<close>

theorem C1_no_queries_via_get_witness:
  "\<not> allow_queries_via_get (ex_view False)
   \<and> method (ex_request ''GET'' '''' '''' [(''query'', ''{ hello }'')]) = ''GET''
   \<and> method (ex_request ''GET'' '''' '''' [(''x'', ''1'')]) = ''GET''
   \<and> from_http ex_env ''GET'' = spec_from_http ''GET''
   \<and> rejects_disallowed ex_kind (execute_sync (ex_view False))
   \<and> parse_http_body ex_env (ex_request ''GET'' '''' '''' [(''query'', ''{ hello }'')])
       = Inr \<lparr>query = JStr ''{ hello }'', variables = JNull, operation_name = JNull\<rparr>
   \<and> ex_kind (JStr ''{ hello }'') JNull = Some QUERY
   \<and> run (ex_view False) ex_env (ex_request ''GET'' '''' '''' [(''query'', ''{ hello }'')])
       = ([GetSubResponse, GetContext, GetRootValue,
           Execute \<lparr>query = JStr ''{ hello }'', variables = JNull, operation_name = JNull\<rparr> {}],
          Inl (HTTPException 400 (as_http_error_reason ex_env QUERY ''GET'')))
   \<and> as_http_error_reason ex_env QUERY ''GET'' = ''queries are not allowed when using GET''
   \<and> parse_http_body ex_env (ex_request ''GET'' '''' '''' [(''x'', ''1'')])
       = Inr \<lparr>query = JNull, variables = JNull, operation_name = JNull\<rparr>
   \<and> execute_sync (ex_view False) JNull None JNull ''context'' JNull {} = Inl MissingQueryError
   \<and> run (ex_view False) ex_env (ex_request ''GET'' '''' '''' [(''x'', ''1'')])
       = ([GetSubResponse, GetContext, GetRootValue,
           Execute \<lparr>query = JNull, variables = JNull, operation_name = JNull\<rparr> {}],
          Inl (HTTPException 400 ''No GraphQL query found in the request''))
   \<and> \<not> h_allow_queries_via_get (ex_handler True False)
   \<and> s_method (ex_srequest ''GET'' [] '''' [(''query'', ''{ hello }'')]) = ''GET''
   \<and> rejects_disallowed ex_kind (schema_execute (ex_handler True False))
   \<and> dispatch (ex_handler True False) ex_env
        (ex_srequest ''GET'' [] '''' [(''query'', ''{ hello }'')])
       = Inr (Inr (JObj [(''query'', JStr ''{ hello }'')]))
   \<and> parse_request_data ex_env (JObj [(''query'', JStr ''{ hello }'')])
       = Inr \<lparr>query = JStr ''{ hello }'', variables = JNull, operation_name = JNull\<rparr>
   \<and> get_http_response (ex_handler True False) ex_env
        (ex_srequest ''GET'' [] '''' [(''query'', ''{ hello }'')])
        (handler_execute (ex_handler True False)) (h_process_result (ex_handler True False))
        None ''context''
       = ([Execute \<lparr>query = JStr ''{ hello }'', variables = JNull, operation_name = JNull\<rparr> {}],
          Inr (PlainTextResponse (as_http_error_reason ex_env QUERY ''GET'') 400))"
proof -
  let ?req = "ex_request ''GET'' '''' '''' [(''query'', ''{ hello }'')]"
  let ?req' = "ex_request ''GET'' '''' '''' [(''x'', ''1'')]"
  let ?areq = "ex_srequest ''GET'' [] '''' [(''query'', ''{ hello }'')]"
  let ?rd = "\<lparr>query = JStr ''{ hello }'', variables = JNull, operation_name = JNull\<rparr>"
  let ?rd' = "\<lparr>query = JNull, variables = JNull, operation_name = JNull\<rparr>"
  have v: "\<not> allow_queries_via_get (ex_view False) \<and> method ?req = ''GET''"
    and v': "\<not> allow_queries_via_get (ex_view False) \<and> method ?req' = ''GET''"
    by (simp_all add: ex_view_def ex_request_def)
  have h: "\<not> h_allow_queries_via_get (ex_handler True False) \<and> s_method ?areq = ''GET''"
    by (simp add: ex_handler_def ex_srequest_def)
  have f: "from_http ex_env ''GET'' = spec_from_http ''GET''"
    by (simp add: ex_env_def ex_env0_def)
  have e: "rejects_disallowed ex_kind (execute_sync (ex_view False))"
    by (simp add: ex_view_def spec_execute_rejects)
  have e': "rejects_disallowed ex_kind (schema_execute (ex_handler True False))"
    by (simp add: ex_handler_def spec_execute_rejects)
  have p: "parse_http_body ex_env ?req = Inr ?rd"
    by (simp add: parse_http_body_def request_content_type_def get_query_params_def
        parse_query_params_def request_data_of_def dict_get_def ex_request_def string_defs)
  have p2: "parse_http_body ex_env ?req' = Inr ?rd'"
    by (simp add: parse_http_body_def request_content_type_def get_query_params_def
        parse_query_params_def request_data_of_def dict_get_def ex_request_def string_defs)
  have k: "ex_kind (query ?rd) (operation_name ?rd) = Some QUERY"
    by (simp add: ex_kind_def)
  have mq: "execute_sync (ex_view False) (query ?rd') (get_root_value (ex_view False) ?req')
              (variables ?rd')
              (fst (get_context (ex_view False) ?req' (get_sub_response (ex_view False) ?req')))
              (operation_name ?rd') {} = Inl MissingQueryError"
    by (simp add: ex_view_def spec_execute_def ex_kind_def)
  have d: "dispatch (ex_handler True False) ex_env ?areq
             = Inr (Inr (JObj [(''query'', JStr ''{ hello }'')]))"
    by (simp add: dispatch_def ex_srequest_def ex_env_def ex_env0_def parse_query_params_def)
  have p': "parse_request_data ex_env (JObj [(''query'', JStr ''{ hello }'')]) = Inr ?rd"
    by (simp add: ex_env_def ex_env0_def request_data_of_def dict_get_def)
  have t: "as_http_error_reason ex_env QUERY ''GET'' = ''queries are not allowed when using GET''"
    by (simp add: ex_env_def ex_env0_def ex_reason_def)
  have g: "debug (ex_handler True False) = False"
    by (simp add: ex_handler_def)
  note c = C1_no_queries_via_get
             [of "ex_view False" ?req ex_env ex_kind "ex_handler True False" ?areq
                 "h_process_result (ex_handler True False)" None "''context''"]
  note c' = C1_no_queries_via_get
             [of "ex_view False" ?req' ex_env ex_kind "ex_handler True False" ?areq
                 "h_process_result (ex_handler True False)" None "''context''"]
  from c v f e p k have
    "run (ex_view False) ex_env ?req
       = ([GetSubResponse, GetContext, GetRootValue, Execute ?rd {}],
          Inl (HTTPException 400 (as_http_error_reason ex_env QUERY ''GET'')))"
    by blast
  moreover from c' v' f p2 mq have
    "run (ex_view False) ex_env ?req'
       = ([GetSubResponse, GetContext, GetRootValue, Execute ?rd' {}],
          Inl (HTTPException 400 ''No GraphQL query found in the request''))"
    by blast
  moreover from c h f e' d p' k have
    "get_http_response (ex_handler True False) ex_env ?areq
        (handler_execute (ex_handler True False)) (h_process_result (ex_handler True False))
        None ''context''
       = (Execute ?rd {} # (if debug (ex_handler True False) then [DebugPrint] else []),
          Inr (PlainTextResponse (as_http_error_reason ex_env QUERY ''GET'') 400))"
    by blast
  moreover have "execute_sync (ex_view False) JNull None JNull ''context'' JNull {}
                   = Inl MissingQueryError"
    using mq by (simp add: ex_view_def)
  ultimately show ?thesis
    using v v' h f e e' p p2 k d p' t g by simp
qed

text \<open>
  The claim as written fails: the request \<open>GET /?x=1\<close>, with queries via GET switched
  off, makes both views call the engine with the empty set, and the attempt fails with
  the missing-query error, not with the invalid-operation-type error.
\<close>

theorem C1_missing_query_counterexample:
  "run (ex_view False) ex_env (ex_request ''GET'' '''' '''' [(''x'', ''1'')])
     = ([GetSubResponse, GetContext, GetRootValue,
         Execute \<lparr>query = JNull, variables = JNull, operation_name = JNull\<rparr> {}],
        Inl (HTTPException 400 ''No GraphQL query found in the request''))
   \<and> get_http_response (ex_handler True False) ex_env
        (ex_srequest ''GET'' [] '''' [(''x'', ''1'')])
        (handler_execute (ex_handler True False)) (h_process_result (ex_handler True False))
        None ''context''
     = ([Execute \<lparr>query = JNull, variables = JNull, operation_name = JNull\<rparr> {}],
        Inr (PlainTextResponse ''No GraphQL query found in the request'' 400))"
  by (simp add: sync_defs async_defs ex_defs string_defs)

section \<open>The two views side by side\<close>









end
